theory Spec2Isabelle
  imports Complex_Main "HOL-Library.Type_Length"
begin

section \<open>Floating-point values\<close>

text \<open>
  The library computes in C++ \<^verbatim>\<open>float\<close> (IEEE-754 binary32) and, in one function,
  \<^verbatim>\<open>double\<close> (binary64). A value is a finite real, the negative zero, an infinity or
  NaN; \<open>Fin 0\<close> is the positive zero and \<open>NZero\<close> the negative one. The type parameter
  only records the format (its bit width), so that \<^verbatim>\<open>float\<close> and \<^verbatim>\<open>double\<close> are
  different types as they are in the source. Every arithmetic operation computes the
  exact real result and rounds it to the nearest value of the format, ties to even,
  overflowing to an infinity and underflowing to the zero of the result's sign; an exact
  zero result has the sign IEEE-754 gives it. NaN carries no payload.
\<close>

datatype 'f ieee = Fin real | NZero | PInf | NInf | NaN

type_synonym float = "32 ieee"
type_synonym double = "64 ieee"

definition prec :: "'f::len itself \<Rightarrow> int" where
  "prec _ = (if LENGTH('f) = 64 then 53 else 24)"

definition emax :: "'f::len itself \<Rightarrow> int" where
  "emax _ = (if LENGTH('f) = 64 then 1023 else 127)"

definition round_half_even :: "real \<Rightarrow> int" where
  "round_half_even y =
     (let f = \<lfloor>y\<rfloor>; d = y - of_int f
      in if d < 1 / 2 then f else if 1 / 2 < d then f + 1
         else if even f then f else f + 1)"

definition round_ieee :: "real \<Rightarrow> 'f::len ieee" where
  "round_ieee x =
     (if x = 0 then Fin 0
      else
        let e = max \<lfloor>log 2 \<bar>x\<bar>\<rfloor> (1 - emax TYPE('f));
            q = 2 powr of_int (e - prec TYPE('f) + 1);
            r = of_int (round_half_even (\<bar>x\<bar> / q)) * q
        in if 2 powr of_int (emax TYPE('f) + 1) \<le> r
           then (if 0 < x then PInf else NInf)
           else if 0 < x then Fin r
           else if r = 0 then NZero else Fin (- r))"

fun is_finite :: "'f ieee \<Rightarrow> bool" where
  "is_finite (Fin x) = True"
| "is_finite NZero = True"
| "is_finite _ = False"

fun is_zero :: "'f ieee \<Rightarrow> bool" where
  "is_zero (Fin x) = (x = 0)"
| "is_zero NZero = True"
| "is_zero _ = False"

text \<open>The sign bit (\<^verbatim>\<open>std::signbit\<close>); of NaN it is not used.\<close>

fun signbit :: "'f ieee \<Rightarrow> bool" where
  "signbit (Fin x) = (x < 0)"
| "signbit NZero = True"
| "signbit PInf = False"
| "signbit NInf = True"
| "signbit NaN = False"

fun fneg :: "'f ieee \<Rightarrow> 'f ieee" where
  "fneg (Fin x) = (if x = 0 then NZero else Fin (- x))"
| "fneg NZero = Fin 0"
| "fneg PInf = NInf"
| "fneg NInf = PInf"
| "fneg NaN = NaN"

fun fabs :: "'f ieee \<Rightarrow> 'f ieee" where
  "fabs (Fin x) = Fin \<bar>x\<bar>"
| "fabs NZero = Fin 0"
| "fabs PInf = PInf"
| "fabs NInf = PInf"
| "fabs NaN = NaN"

text \<open>
  Addition: a sum that is exactly zero is the positive zero, unless both operands are the
  negative zero.
\<close>

fun fadd :: "'f::len ieee \<Rightarrow> 'f ieee \<Rightarrow> 'f ieee" where
  "fadd NaN _ = NaN"
| "fadd _ NaN = NaN"
| "fadd PInf NInf = NaN"
| "fadd NInf PInf = NaN"
| "fadd PInf _ = PInf"
| "fadd _ PInf = PInf"
| "fadd NInf _ = NInf"
| "fadd _ NInf = NInf"
| "fadd NZero NZero = NZero"
| "fadd NZero (Fin y) = round_ieee y"
| "fadd (Fin x) NZero = round_ieee x"
| "fadd (Fin x) (Fin y) = round_ieee (x + y)"

text \<open>
  Multiplication and division: the sign of the result is the exclusive or of the signs of
  the operands, also when the result is a zero or an infinity.
\<close>

fun fmul :: "'f::len ieee \<Rightarrow> 'f ieee \<Rightarrow> 'f ieee" where
  "fmul NaN _ = NaN"
| "fmul _ NaN = NaN"
| "fmul (Fin x) (Fin y) =
     (if x * y = 0 then (if (x < 0) \<noteq> (y < 0) then NZero else Fin 0)
      else round_ieee (x * y))"
| "fmul (Fin x) NZero = (if x < 0 then Fin 0 else NZero)"
| "fmul NZero (Fin y) = (if y < 0 then Fin 0 else NZero)"
| "fmul NZero NZero = Fin 0"
| "fmul (Fin x) PInf = (if x = 0 then NaN else if 0 < x then PInf else NInf)"
| "fmul (Fin x) NInf = (if x = 0 then NaN else if 0 < x then NInf else PInf)"
| "fmul PInf (Fin y) = (if y = 0 then NaN else if 0 < y then PInf else NInf)"
| "fmul NInf (Fin y) = (if y = 0 then NaN else if 0 < y then NInf else PInf)"
| "fmul NZero PInf = NaN"
| "fmul NZero NInf = NaN"
| "fmul PInf NZero = NaN"
| "fmul NInf NZero = NaN"
| "fmul PInf PInf = PInf"
| "fmul NInf NInf = PInf"
| "fmul PInf NInf = NInf"
| "fmul NInf PInf = NInf"

fun fdiv :: "'f::len ieee \<Rightarrow> 'f ieee \<Rightarrow> 'f ieee" where
  "fdiv NaN _ = NaN"
| "fdiv _ NaN = NaN"
| "fdiv (Fin x) (Fin y) =
     (if y = 0 then (if x = 0 then NaN else if 0 < x then PInf else NInf)
      else if x = 0 then (if y < 0 then NZero else Fin 0)
      else round_ieee (x / y))"
| "fdiv (Fin x) NZero = (if x = 0 then NaN else if 0 < x then NInf else PInf)"
| "fdiv NZero (Fin y) = (if y = 0 then NaN else if y < 0 then Fin 0 else NZero)"
| "fdiv NZero NZero = NaN"
| "fdiv (Fin x) PInf = (if x < 0 then NZero else Fin 0)"
| "fdiv (Fin x) NInf = (if x < 0 then Fin 0 else NZero)"
| "fdiv NZero PInf = NZero"
| "fdiv NZero NInf = Fin 0"
| "fdiv PInf (Fin y) = (if y < 0 then NInf else PInf)"
| "fdiv NInf (Fin y) = (if y < 0 then PInf else NInf)"
| "fdiv PInf NZero = NInf"
| "fdiv NInf NZero = PInf"
| "fdiv _ _ = NaN"

text \<open>The comparisons do not see the sign of a zero.\<close>

fun flt :: "'f ieee \<Rightarrow> 'f ieee \<Rightarrow> bool" where
  "flt NaN _ = False"
| "flt _ NaN = False"
| "flt (Fin x) (Fin y) = (x < y)"
| "flt (Fin x) NZero = (x < 0)"
| "flt NZero (Fin y) = (0 < y)"
| "flt NZero NZero = False"
| "flt (Fin x) PInf = True"
| "flt NZero PInf = True"
| "flt (Fin x) NInf = False"
| "flt NZero NInf = False"
| "flt NInf NInf = False"
| "flt NInf _ = True"
| "flt PInf _ = False"

text \<open>
  C++ \<^verbatim>\<open>==\<close> on floating-point values: NaN equals nothing, itself included, and the
  two zeros are equal.
\<close>

definition feq :: "'f ieee \<Rightarrow> 'f ieee \<Rightarrow> bool" where
  "feq a b = (a \<noteq> NaN \<and> b \<noteq> NaN \<and> (a = b \<or> (is_zero a \<and> is_zero b)))"

instantiation ieee :: (len) "{zero,one,plus,minus,uminus,times,inverse,abs,ord}"
begin

definition zero_ieee :: "'a ieee" where "0 = Fin 0"

definition one_ieee :: "'a ieee" where "1 = Fin 1"

definition plus_ieee :: "'a ieee \<Rightarrow> 'a ieee \<Rightarrow> 'a ieee" where "a + b = fadd a b"

definition uminus_ieee :: "'a ieee \<Rightarrow> 'a ieee" where "- a = fneg a"

definition minus_ieee :: "'a ieee \<Rightarrow> 'a ieee \<Rightarrow> 'a ieee" where "a - b = fadd a (fneg b)"

definition times_ieee :: "'a ieee \<Rightarrow> 'a ieee \<Rightarrow> 'a ieee" where "a * b = fmul a b"

definition divide_ieee :: "'a ieee \<Rightarrow> 'a ieee \<Rightarrow> 'a ieee" where "a div b = fdiv a b"

definition inverse_ieee :: "'a ieee \<Rightarrow> 'a ieee" where "inverse a = fdiv (Fin 1) a"

definition abs_ieee :: "'a ieee \<Rightarrow> 'a ieee" where "\<bar>a\<bar> = fabs a"

definition less_ieee :: "'a ieee \<Rightarrow> 'a ieee \<Rightarrow> bool" where "a < b = flt a b"

definition less_eq_ieee :: "'a ieee \<Rightarrow> 'a ieee \<Rightarrow> bool" where "a \<le> b = (flt a b \<or> feq a b)"

instance ..

end

text \<open>
  Literals: a decimal literal denotes the nearest value of its type. Conversions:
  \<^verbatim>\<open>float\<close> to \<^verbatim>\<open>double\<close> is exact, \<^verbatim>\<open>double\<close> to \<^verbatim>\<open>float\<close> rounds.
\<close>

definition lit :: "real \<Rightarrow> 'f::len ieee" where
  "lit r = round_ieee r"

fun convert :: "'f ieee \<Rightarrow> 'g::len ieee" where
  "convert (Fin x) = round_ieee x"
| "convert NZero = NZero"
| "convert PInf = PInf"
| "convert NInf = NInf"
| "convert NaN = NaN"

text \<open>
  The functions of \<^verbatim>\<open><cmath>\<close>. \<^verbatim>\<open>sqrt\<close> is correctly rounded by IEEE-754; the
  others are modelled as the correctly rounded exact function, with the special values of
  the C standard (Annex F): the odd functions return a zero argument as it is, and
  \<^verbatim>\<open>atan2\<close> is odd in its first argument and reads the sign of a zero second
  argument.
\<close>

fun sqrtf :: "'f::len ieee \<Rightarrow> 'f ieee" where
  "sqrtf (Fin x) = (if x < 0 then NaN else round_ieee (sqrt x))"
| "sqrtf NZero = NZero"
| "sqrtf PInf = PInf"
| "sqrtf NInf = NaN"
| "sqrtf NaN = NaN"

fun sinf :: "'f::len ieee \<Rightarrow> 'f ieee" where
  "sinf (Fin x) = round_ieee (sin x)"
| "sinf NZero = NZero"
| "sinf _ = NaN"

fun cosf :: "'f::len ieee \<Rightarrow> 'f ieee" where
  "cosf (Fin x) = round_ieee (cos x)"
| "cosf NZero = round_ieee 1"
| "cosf _ = NaN"

fun tanf :: "'f::len ieee \<Rightarrow> 'f ieee" where
  "tanf (Fin x) = round_ieee (tan x)"
| "tanf NZero = NZero"
| "tanf _ = NaN"

fun acosf :: "'f::len ieee \<Rightarrow> 'f ieee" where
  "acosf (Fin x) = (if \<bar>x\<bar> \<le> 1 then round_ieee (arccos x) else NaN)"
| "acosf NZero = round_ieee (arccos 0)"
| "acosf _ = NaN"

fun asinf :: "'f::len ieee \<Rightarrow> 'f ieee" where
  "asinf (Fin x) = (if \<bar>x\<bar> \<le> 1 then round_ieee (arcsin x) else NaN)"
| "asinf NZero = NZero"
| "asinf _ = NaN"

definition atan2_real :: "real \<Rightarrow> real \<Rightarrow> real" where
  "atan2_real y x =
     (if 0 < x then arctan (y / x)
      else if x < 0 then (if 0 \<le> y then arctan (y / x) + pi else arctan (y / x) - pi)
      else if 0 < y then pi / 2 else if y < 0 then - (pi / 2) else 0)"

text \<open>
  \<^verbatim>\<open>atan2(y, x)\<close> for a first argument whose sign bit is clear: +0, a positive real or
  plus infinity.
\<close>

fun atan2_pos :: "'f::len ieee \<Rightarrow> 'f ieee \<Rightarrow> 'f ieee" where
  "atan2_pos (Fin y) (Fin x) =
     (if y = 0 then (if x < 0 then round_ieee pi else Fin 0)
      else round_ieee (atan2_real y x))"
| "atan2_pos (Fin y) NZero = (if y = 0 then round_ieee pi else round_ieee (pi / 2))"
| "atan2_pos (Fin y) PInf = Fin 0"
| "atan2_pos (Fin y) NInf = round_ieee pi"
| "atan2_pos PInf (Fin x) = round_ieee (pi / 2)"
| "atan2_pos PInf NZero = round_ieee (pi / 2)"
| "atan2_pos PInf PInf = round_ieee (pi / 4)"
| "atan2_pos PInf NInf = round_ieee (3 * pi / 4)"
| "atan2_pos _ _ = NaN"

definition atan2f :: "'f::len ieee \<Rightarrow> 'f ieee \<Rightarrow> 'f ieee" where
  "atan2f y x =
     (if y = NaN \<or> x = NaN then NaN
      else if signbit y then fneg (atan2_pos (fneg y) x)
      else atan2_pos y x)"

section \<open>Vectors (vec3.h, vec4.h)\<close>

record Vec3 =
  x3 :: float
  y3 :: float
  z3 :: float

record Vec4 =
  x4 :: float
  y4 :: float
  z4 :: float
  w4 :: float

text \<open>\<^verbatim>\<open>constexpr TVector4() noexcept : x(0), y(0), z(0), w(0) {}\<close>\<close>

definition TVector4 :: Vec4 where
  "TVector4 = \<lparr>x4 = 0, y4 = 0, z4 = 0, w4 = 0\<rparr>"

text \<open>\<^verbatim>\<open>TVector4::operator==\<close>: componentwise \<^verbatim>\<open>==\<close>.\<close>

definition Vec4_eq :: "Vec4 \<Rightarrow> Vec4 \<Rightarrow> bool" where
  "Vec4_eq l r = (feq (x4 l) (x4 r) \<and> feq (y4 l) (y4 r) \<and> feq (z4 l) (z4 r) \<and> feq (w4 l) (w4 r))"

text \<open>\<^verbatim>\<open>operator[](int i)\<close> is \<^verbatim>\<open>(&x)[i]\<close>; the callers use indices 0 to 3 only.\<close>

definition Vec4_at :: "Vec4 \<Rightarrow> nat \<Rightarrow> float" where
  "Vec4_at v i = (if i = 0 then x4 v else if i = 1 then y4 v else if i = 2 then z4 v else w4 v)"

definition Vec4_set :: "Vec4 \<Rightarrow> nat \<Rightarrow> float \<Rightarrow> Vec4" where
  "Vec4_set v i a =
     (if i = 0 then v\<lparr>x4 := a\<rparr> else if i = 1 then v\<lparr>y4 := a\<rparr>
      else if i = 2 then v\<lparr>z4 := a\<rparr> else v\<lparr>w4 := a\<rparr>)"

section \<open>Mat4 (mat4.h, mat4.cpp)\<close>

text \<open>\<^verbatim>\<open>Vec4 rows[4];\<close>\<close>

record Mat4 =
  row0 :: Vec4
  row1 :: Vec4
  row2 :: Vec4
  row3 :: Vec4

definition Mat4_row :: "Mat4 \<Rightarrow> nat \<Rightarrow> Vec4" where
  "Mat4_row m i = (if i = 0 then row0 m else if i = 1 then row1 m else if i = 2 then row2 m else row3 m)"

definition Mat4_set_row :: "Mat4 \<Rightarrow> nat \<Rightarrow> Vec4 \<Rightarrow> Mat4" where
  "Mat4_set_row m i v =
     (if i = 0 then m\<lparr>row0 := v\<rparr> else if i = 1 then m\<lparr>row1 := v\<rparr>
      else if i = 2 then m\<lparr>row2 := v\<rparr> else m\<lparr>row3 := v\<rparr>)"

text \<open>\<^verbatim>\<open>m[r][c]\<close>, read and written.\<close>

definition Mat4_at :: "Mat4 \<Rightarrow> nat \<Rightarrow> nat \<Rightarrow> float" where
  "Mat4_at m r c = Vec4_at (Mat4_row m r) c"

definition Mat4_set :: "Mat4 \<Rightarrow> nat \<Rightarrow> nat \<Rightarrow> float \<Rightarrow> Mat4" where
  "Mat4_set m r c a = Mat4_set_row m r (Vec4_set (Mat4_row m r) c a)"

text \<open>\<^verbatim>\<open>Mat4::Mat4()\<close>: four zero rows.\<close>

definition Mat4_default :: Mat4 where
  "Mat4_default = \<lparr>row0 = TVector4, row1 = TVector4, row2 = TVector4, row3 = TVector4\<rparr>"

text \<open>\<^verbatim>\<open>Mat4::Mat4(float diagonal)\<close>\<close>

definition Mat4_diagonal :: "float \<Rightarrow> Mat4" where
  "Mat4_diagonal d =
     \<lparr>row0 = \<lparr>x4 = d, y4 = 0, z4 = 0, w4 = 0\<rparr>,
      row1 = \<lparr>x4 = 0, y4 = d, z4 = 0, w4 = 0\<rparr>,
      row2 = \<lparr>x4 = 0, y4 = 0, z4 = d, w4 = 0\<rparr>,
      row3 = \<lparr>x4 = 0, y4 = 0, z4 = 0, w4 = d\<rparr>\<rparr>"

text \<open>\<^verbatim>\<open>Mat4::Identity()\<close> is \<^verbatim>\<open>Mat4(1.0f)\<close>.\<close>

definition Identity :: Mat4 where
  "Identity = Mat4_diagonal 1"

text \<open>
  \<^verbatim>\<open>Mat4::Mat4(const Mat4 &copy) noexcept { }\<close>: the constructor has no member
  initialisers and an empty body, so \<^verbatim>\<open>rows\<close> is default-initialised: each row by
  \<^verbatim>\<open>TVector4()\<close>. The argument is not read.

  The constructor runs wherever the source copies a named matrix, as in
  \<^verbatim>\<open>Mat4 LocalMatrix(transform);\<close>. A function that returns a temporary
  (\<^verbatim>\<open>return Mat4({...});\<close>) constructs it in place. A function that returns a named local
  (\<^verbatim>\<open>return result;\<close> in Multiply, GetInverse and ToMatrix) is modelled as returning the
  value of the local: the compiler may build the local in the caller's storage, and the
  tests of the repository (MatrixEdgeTests.cpp, MatrixTests.cpp) hold only if it does.
\<close>

definition Mat4_copy :: "Mat4 \<Rightarrow> Mat4" where
  "Mat4_copy copy = \<lparr>row0 = TVector4, row1 = TVector4, row2 = TVector4, row3 = TVector4\<rparr>"

text \<open>\<^verbatim>\<open>Mat4::operator==\<close>: the four rows compare equal.\<close>

definition Mat4_eq :: "Mat4 \<Rightarrow> Mat4 \<Rightarrow> bool" where
  "Mat4_eq l r =
     (Vec4_eq (row0 l) (row0 r) \<and> Vec4_eq (row1 l) (row1 r) \<and>
      Vec4_eq (row2 l) (row2 r) \<and> Vec4_eq (row3 l) (row3 r))"

text \<open>
  \<^verbatim>\<open>Mat4::Mat4(std::initializer_list<Vec4> inRows)\<close>, as every factory calls it: with
  four rows.
\<close>

definition Mat4_of_rows :: "Vec4 \<Rightarrow> Vec4 \<Rightarrow> Vec4 \<Rightarrow> Vec4 \<Rightarrow> Mat4" where
  "Mat4_of_rows a b c d = \<lparr>row0 = a, row1 = b, row2 = c, row3 = d\<rparr>"

definition Translate :: "Vec3 \<Rightarrow> Mat4" where
  "Translate translation =
     Mat4_of_rows \<lparr>x4 = 1, y4 = 0, z4 = 0, w4 = x3 translation\<rparr>
                  \<lparr>x4 = 0, y4 = 1, z4 = 0, w4 = y3 translation\<rparr>
                  \<lparr>x4 = 0, y4 = 0, z4 = 1, w4 = z3 translation\<rparr>
                  \<lparr>x4 = 0, y4 = 0, z4 = 0, w4 = 1\<rparr>"

text \<open>\<^verbatim>\<open>Mat4::Scale(const Vec3 &scale)\<close>\<close>

definition Scale :: "Vec3 \<Rightarrow> Mat4" where
  "Scale scale =
     Mat4_of_rows \<lparr>x4 = x3 scale, y4 = 0, z4 = 0, w4 = 0\<rparr>
                  \<lparr>x4 = 0, y4 = y3 scale, z4 = 0, w4 = 0\<rparr>
                  \<lparr>x4 = 0, y4 = 0, z4 = z3 scale, w4 = 0\<rparr>
                  \<lparr>x4 = 0, y4 = 0, z4 = 0, w4 = 1\<rparr>"

text \<open>
  \<^verbatim>\<open>Mat4::Multiply(const Mat4&, const Mat4&)\<close> (matrix.cpp): the three nested loops.
  The cell is set to 0 and the four products are added to it in order.
\<close>

definition Multiply :: "Mat4 \<Rightarrow> Mat4 \<Rightarrow> Mat4" where
  "Multiply lhs rhs =
     foldl (\<lambda>result i.
       foldl (\<lambda>result j.
         foldl (\<lambda>result k.
             Mat4_set result i j (Mat4_at result i j + Mat4_at lhs i k * Mat4_at rhs k j))
           (Mat4_set result i j 0) [0..<4])
         result [0..<4])
       Mat4_default [0..<4]"

text \<open>\<^verbatim>\<open>Mat4::Multiply(const Mat4&, const Vec4&)\<close>\<close>

definition Multiply_Vec4 :: "Mat4 \<Rightarrow> Vec4 \<Rightarrow> Vec4" where
  "Multiply_Vec4 lhs rhs =
     foldl (\<lambda>result i.
         Vec4_set result i
           (foldl (\<lambda>val j. val + Mat4_at lhs i j * Vec4_at rhs j) 0 [0..<4]))
       TVector4 [0..<4]"

text \<open>
  \<^verbatim>\<open>Vec4 Mat4::operator*(const Vec3 &rhs) const { return Multiply(*this, Vec4(rhs, 1.0f)); }\<close>
\<close>

definition Vec4_of_Vec3 :: "Vec3 \<Rightarrow> float \<Rightarrow> Vec4" where
  "Vec4_of_Vec3 v w = \<lparr>x4 = x3 v, y4 = y3 v, z4 = z3 v, w4 = w\<rparr>"

definition Mat4_mul_Vec3 :: "Mat4 \<Rightarrow> Vec3 \<Rightarrow> Vec4" where
  "Mat4_mul_Vec3 m rhs = Multiply_Vec4 m (Vec4_of_Vec3 rhs 1)"

text \<open>
  \<^verbatim>\<open>Mat4::GetInverse(const Mat4&)\<close> (matrix.cpp). \<^verbatim>\<open>GetInverse_det\<close> is its local
  \<^verbatim>\<open>det\<close>.
\<close>

definition GetInverse_det :: "Mat4 \<Rightarrow> float" where
  "GetInverse_det matrix =
     (let n11 = Mat4_at matrix 0 0;
          n12 = Mat4_at matrix 1 0;
          n13 = Mat4_at matrix 2 0;
          n14 = Mat4_at matrix 3 0;
          n21 = Mat4_at matrix 0 1;
          n22 = Mat4_at matrix 1 1;
          n23 = Mat4_at matrix 2 1;
          n24 = Mat4_at matrix 3 1;
          n31 = Mat4_at matrix 0 2;
          n32 = Mat4_at matrix 1 2;
          n33 = Mat4_at matrix 2 2;
          n34 = Mat4_at matrix 3 2;
          n41 = Mat4_at matrix 0 3;
          n42 = Mat4_at matrix 1 3;
          n43 = Mat4_at matrix 2 3;
          n44 = Mat4_at matrix 3 3;
          t11 = n23 * n34 * n42 - n24 * n33 * n42 + n24 * n32 * n43 - n22 * n34 * n43 - n23 * n32 * n44 + n22 * n33 * n44;
          t12 = n14 * n33 * n42 - n13 * n34 * n42 - n14 * n32 * n43 + n12 * n34 * n43 + n13 * n32 * n44 - n12 * n33 * n44;
          t13 = n13 * n24 * n42 - n14 * n23 * n42 + n14 * n22 * n43 - n12 * n24 * n43 - n13 * n22 * n44 + n12 * n23 * n44;
          t14 = n14 * n23 * n32 - n13 * n24 * n32 - n14 * n22 * n33 + n12 * n24 * n33 + n13 * n22 * n34 - n12 * n23 * n34
      in n11 * t11 + n21 * t12 + n31 * t13 + n41 * t14)"

definition GetInverse :: "Mat4 \<Rightarrow> Mat4" where
  "GetInverse matrix =
     (let n11 = Mat4_at matrix 0 0;
          n12 = Mat4_at matrix 1 0;
          n13 = Mat4_at matrix 2 0;
          n14 = Mat4_at matrix 3 0;
          n21 = Mat4_at matrix 0 1;
          n22 = Mat4_at matrix 1 1;
          n23 = Mat4_at matrix 2 1;
          n24 = Mat4_at matrix 3 1;
          n31 = Mat4_at matrix 0 2;
          n32 = Mat4_at matrix 1 2;
          n33 = Mat4_at matrix 2 2;
          n34 = Mat4_at matrix 3 2;
          n41 = Mat4_at matrix 0 3;
          n42 = Mat4_at matrix 1 3;
          n43 = Mat4_at matrix 2 3;
          n44 = Mat4_at matrix 3 3;
          t11 = n23 * n34 * n42 - n24 * n33 * n42 + n24 * n32 * n43 - n22 * n34 * n43 - n23 * n32 * n44 + n22 * n33 * n44;
          t12 = n14 * n33 * n42 - n13 * n34 * n42 - n14 * n32 * n43 + n12 * n34 * n43 + n13 * n32 * n44 - n12 * n33 * n44;
          t13 = n13 * n24 * n42 - n14 * n23 * n42 + n14 * n22 * n43 - n12 * n24 * n43 - n13 * n22 * n44 + n12 * n23 * n44;
          t14 = n14 * n23 * n32 - n13 * n24 * n32 - n14 * n22 * n33 + n12 * n24 * n33 + n13 * n22 * n34 - n12 * n23 * n34;
          det = n11 * t11 + n21 * t12 + n31 * t13 + n41 * t14;
          idet = 1 / det
      in \<lparr>row0 = \<lparr>x4 = t11 * idet,
                   y4 = (n24 * n33 * n41 - n23 * n34 * n41 - n24 * n31 * n43 + n21 * n34 * n43 + n23 * n31 * n44 - n21 * n33 * n44) * idet,
                   z4 = (n22 * n34 * n41 - n24 * n32 * n41 + n24 * n31 * n42 - n21 * n34 * n42 - n22 * n31 * n44 + n21 * n32 * n44) * idet,
                   w4 = (n23 * n32 * n41 - n22 * n33 * n41 - n23 * n31 * n42 + n21 * n33 * n42 + n22 * n31 * n43 - n21 * n32 * n43) * idet\<rparr>,
          row1 = \<lparr>x4 = t12 * idet,
                   y4 = (n13 * n34 * n41 - n14 * n33 * n41 + n14 * n31 * n43 - n11 * n34 * n43 - n13 * n31 * n44 + n11 * n33 * n44) * idet,
                   z4 = (n14 * n32 * n41 - n12 * n34 * n41 - n14 * n31 * n42 + n11 * n34 * n42 + n12 * n31 * n44 - n11 * n32 * n44) * idet,
                   w4 = (n12 * n33 * n41 - n13 * n32 * n41 + n13 * n31 * n42 - n11 * n33 * n42 - n12 * n31 * n43 + n11 * n32 * n43) * idet\<rparr>,
          row2 = \<lparr>x4 = t13 * idet,
                   y4 = (n14 * n23 * n41 - n13 * n24 * n41 - n14 * n21 * n43 + n11 * n24 * n43 + n13 * n21 * n44 - n11 * n23 * n44) * idet,
                   z4 = (n12 * n24 * n41 - n14 * n22 * n41 + n14 * n21 * n42 - n11 * n24 * n42 - n12 * n21 * n44 + n11 * n22 * n44) * idet,
                   w4 = (n13 * n22 * n41 - n12 * n23 * n41 - n13 * n21 * n42 + n11 * n23 * n42 + n12 * n21 * n43 - n11 * n22 * n43) * idet\<rparr>,
          row3 = \<lparr>x4 = t14 * idet,
                   y4 = (n13 * n24 * n31 - n14 * n23 * n31 + n14 * n21 * n33 - n11 * n24 * n33 - n13 * n21 * n34 + n11 * n23 * n34) * idet,
                   z4 = (n14 * n22 * n31 - n12 * n24 * n31 - n14 * n21 * n32 + n11 * n24 * n32 + n12 * n21 * n34 - n11 * n22 * n34) * idet,
                   w4 = (n12 * n23 * n31 - n13 * n22 * n31 + n13 * n21 * n32 - n11 * n23 * n32 - n12 * n21 * n33 + n11 * n22 * n33) * idet\<rparr>\<rparr>)"

text \<open>math_utils.h, constants.h\<close>

definition PI :: float where
  "PI = lit 3.14159265358979323846"

definition DEG_TO_RAD :: float where
  "DEG_TO_RAD = PI / Fin 180"

definition ToRadians :: "float \<Rightarrow> float" where
  "ToRadians degrees = degrees * DEG_TO_RAD"

text \<open>\<^verbatim>\<open>Mat4::PerspectiveProjection\<close> (matrix.cpp)\<close>

definition PerspectiveProjection :: "float \<Rightarrow> float \<Rightarrow> float \<Rightarrow> float \<Rightarrow> Mat4" where
  "PerspectiveProjection aspect fieldOfView n f =
     (let tanHalfFOV = tanf (ToRadians (fieldOfView / Fin 2))
      in Mat4_of_rows
           \<lparr>x4 = 1 / (aspect * tanHalfFOV), y4 = 0, z4 = 0, w4 = 0\<rparr>
           \<lparr>x4 = 0, y4 = - 1 / tanHalfFOV, z4 = 0, w4 = 0\<rparr>
           \<lparr>x4 = 0, y4 = 0, z4 = f / (f - n), w4 = - f * n / (f - n)\<rparr>
           \<lparr>x4 = 0, y4 = 0, z4 = 1, w4 = 0\<rparr>)"

section \<open>Vector helpers (math_utils.cpp, scale.cpp)\<close>

definition Vec3_at :: "Vec3 \<Rightarrow> nat \<Rightarrow> float" where
  "Vec3_at v i = (if i = 0 then x3 v else if i = 1 then y3 v else z3 v)"

definition Normalize :: "Vec3 \<Rightarrow> Vec3" where
  "Normalize v =
     (let len2 = x3 v * x3 v + y3 v * y3 v + z3 v * z3 v
      in if len2 \<le> 0 then \<lparr>x3 = 0, y3 = 0, z3 = 0\<rparr>
         else let invLen = 1 / sqrtf len2
              in \<lparr>x3 = x3 v * invLen, y3 = y3 v * invLen, z3 = z3 v * invLen\<rparr>)"

definition Dot :: "Vec3 \<Rightarrow> Vec3 \<Rightarrow> float" where
  "Dot a b = x3 a * x3 b + y3 a * y3 b + z3 a * z3 b"

definition Cross :: "Vec3 \<Rightarrow> Vec3 \<Rightarrow> Vec3" where
  "Cross a b =
     \<lparr>x3 = y3 a * z3 b - z3 a * y3 b,
      y3 = z3 a * x3 b - x3 a * z3 b,
      z3 = x3 a * y3 b - y3 a * x3 b\<rparr>"

text \<open>\<^verbatim>\<open>TVector3::operator-()\<close>\<close>

definition Vec3_neg :: "Vec3 \<Rightarrow> Vec3" where
  "Vec3_neg v = \<lparr>x3 = - x3 v, y3 = - y3 v, z3 = - z3 v\<rparr>"

text \<open>\<^verbatim>\<open>template <typename T> constexpr int sign(T x)\<close>\<close>

definition sign :: "float \<Rightarrow> int" where
  "sign x = (if 0 < x then 1 else 0) - (if x < 0 then 1 else 0)"

text \<open>
  Modelled from the spec: \<^verbatim>\<open>xMath/includes/epsilon.h\<close> is not among the sources.
  \<^verbatim>\<open>epsilon<float>()\<close> is \<^verbatim>\<open>std::numeric_limits<float>::epsilon()\<close>
  (EpsilonTests.cpp), and \<^verbatim>\<open>epsilonEqual(a, b, eps)\<close> holds when a and b differ by
  at most eps. Below, only its value at equal arguments matters.
\<close>

definition epsilon :: float where
  "epsilon = Fin (1 / 2 ^ 23)"

definition epsilonEqual :: "float \<Rightarrow> float \<Rightarrow> float \<Rightarrow> bool" where
  "epsilonEqual a b eps = (\<bar>a - b\<bar> \<le> eps)"

text \<open>\<^verbatim>\<open>Vec3 Scale(const Vec3 &vector, float desiredLength)\<close> (scale.cpp)\<close>

definition Scale_to :: "Vec3 \<Rightarrow> float \<Rightarrow> Vec3" where
  "Scale_to vector desiredLength =
     (let mag = sqrtf (x3 vector * x3 vector + y3 vector * y3 vector + z3 vector * z3 vector)
      in if epsilonEqual mag 0 epsilon then \<lparr>x3 = 0, y3 = 0, z3 = 0\<rparr>
         else \<lparr>x3 = x3 vector * desiredLength / mag,
               y3 = y3 vector * desiredLength / mag,
               z3 = z3 vector * desiredLength / mag\<rparr>)"

section \<open>Quat (quat.h, quat.cpp)\<close>

text \<open>\<^verbatim>\<open>struct { float x, y, z, w; };\<close>\<close>

record Quat =
  qx :: float
  qy :: float
  qz :: float
  qw :: float

text \<open>\<^verbatim>\<open>Quat::Quat() : x(0), y(0), z(0), w(1) {}\<close>\<close>

definition Quat_default :: Quat where
  "Quat_default = \<lparr>qx = 0, qy = 0, qz = 0, qw = 1\<rparr>"

text \<open>\<^verbatim>\<open>Quat::Quat(float w, float x, float y, float z)\<close>: the scalar part comes first.\<close>

definition Quat_wxyz :: "float \<Rightarrow> float \<Rightarrow> float \<Rightarrow> float \<Rightarrow> Quat" where
  "Quat_wxyz w x y z = \<lparr>qx = x, qy = y, qz = z, qw = w\<rparr>"

text \<open>\<^verbatim>\<open>Quat::Quat(const Vec4& vec4)\<close>\<close>

definition Quat_of_Vec4 :: "Vec4 \<Rightarrow> Quat" where
  "Quat_of_Vec4 vec4 = \<lparr>qx = x4 vec4, qy = y4 vec4, qz = z4 vec4, qw = w4 vec4\<rparr>"

definition GetNormalized :: "Quat \<Rightarrow> Quat" where
  "GetNormalized q =
     (let mag2 = qw q * qw q + qx q * qx q + qy q * qy q + qz q * qz q
      in if mag2 \<le> 0 then Quat_default
         else let mag = sqrtf mag2
              in if mag \<le> 0 then Quat_default
                 else Quat_wxyz (qw q / mag) (qx q / mag) (qy q / mag) (qz q / mag))"

text \<open>\<^verbatim>\<open>void Quat::Normalize()\<close> mutates the quaternion; the model returns the new one.\<close>

definition Quat_Normalize :: "Quat \<Rightarrow> Quat" where
  "Quat_Normalize q =
     (let mag = sqrtf (qw q * qw q + qx q * qx q + qy q * qy q + qz q * qz q)
      in \<lparr>qx = qx q / mag, qy = qy q / mag, qz = qz q / mag, qw = qw q / mag\<rparr>)"

definition GetSqrMagnitude :: "Quat \<Rightarrow> float" where
  "GetSqrMagnitude q = qx q * qx q + qy q * qy q + qz q * qz q + qw q * qw q"

text \<open>\<^verbatim>\<open>Quat::GetInverse()\<close>\<close>

definition Quat_GetInverse :: "Quat \<Rightarrow> Quat" where
  "Quat_GetInverse q =
     (let sqr = GetSqrMagnitude q; invSqr = 1 / sqr
      in Quat_wxyz (qw q * invSqr) (- qx q * invSqr) (- qy q * invSqr) (- qz q * invSqr))"

text \<open>\<^verbatim>\<open>Quat::operator*(const Quat& rhs)\<close>\<close>

definition Quat_mul :: "Quat \<Rightarrow> Quat \<Rightarrow> Quat" where
  "Quat_mul l rhs =
     \<lparr>qx = qw l * qx rhs + qx l * qw rhs + qy l * qz rhs - qz l * qy rhs,
      qy = qw l * qy rhs - qx l * qz rhs + qy l * qw rhs + qz l * qx rhs,
      qz = qw l * qz rhs + qx l * qy rhs - qy l * qx rhs + qz l * qw rhs,
      qw = qw l * qw rhs - qx l * qx rhs - qy l * qy rhs - qz l * qz rhs\<rparr>"

text \<open>\<^verbatim>\<open>std::min\<close>, \<^verbatim>\<open>std::max\<close> and \<^verbatim>\<open>std::clamp\<close>, as the standard defines them.\<close>

definition std_min :: "float \<Rightarrow> float \<Rightarrow> float" where
  "std_min a b = (if b < a then b else a)"

definition std_max :: "float \<Rightarrow> float \<Rightarrow> float" where
  "std_max a b = (if a < b then b else a)"


text \<open>\<^verbatim>\<open>Quat::Angle(const Quat& a, const Quat& b)\<close>, in degrees.\<close>

definition Angle :: "Quat \<Rightarrow> Quat \<Rightarrow> float" where
  "Angle a b =
     (let degrees = acosf (qw (Quat_mul b (Quat_GetInverse a))) * Fin 2 * lit 57.2957795
      in if Fin 180 < degrees then Fin 360 - degrees else degrees)"

definition AngleRadians :: "Quat \<Rightarrow> float" where
  "AngleRadians x =
     (let cw = std_max (- 1) (std_min 1 (qw x))
      in Fin 2 * acosf cw)"

text \<open>\<^verbatim>\<open>Quat::AngleAxis(float angle, const Vec4& axis)\<close>, the angle in degrees.\<close>

definition AngleAxis :: "float \<Rightarrow> Vec4 \<Rightarrow> Quat" where
  "AngleAxis angle axis =
     (let len = sqrtf (x4 axis * x4 axis + y4 axis * y4 axis + z4 axis * z4 axis);
          vn = (if 0 < len
                then let inv = 1 / len
                     in axis\<lparr>x4 := x4 axis * inv, y4 := y4 axis * inv, z4 := z4 axis * inv\<rparr>
                else axis);
          angle = angle * lit 0.0174532925;
          angle = angle * Fin (1 / 2);
          sinAngle = sinf angle
      in Quat_wxyz (cosf angle) (x4 vn * sinAngle) (y4 vn * sinAngle) (z4 vn * sinAngle))"

definition FromToRotation :: "Vec3 \<Rightarrow> Vec3 \<Rightarrow> Quat" where
  "FromToRotation from to =
     (let unitFrom = Normalize from;
          unitTo = Normalize to;
          dot = Dot unitFrom unitTo
      in if 1 \<le> dot then Quat_default
         else if dot \<le> - 1 then
           (let axis = Cross unitFrom \<lparr>x3 = 1, y3 = 0, z3 = 0\<rparr>;
                axis = (if Dot axis axis < lit (1 / 10 ^ 6)
                        then Cross unitFrom \<lparr>x3 = 0, y3 = 1, z3 = 0\<rparr> else axis);
                normAxis = Normalize axis
            in AngleAxis (Fin 180) \<lparr>x4 = x3 normAxis, y4 = y3 normAxis, z4 = z3 normAxis, w4 = 0\<rparr>)
         else
           (let s_from = Dot unitFrom unitFrom;
                s_to = Dot unitTo unitTo;
                s = sqrtf (s_from * s_to) + Dot unitFrom unitTo;
                v = Cross unitFrom unitTo
            in GetNormalized (Quat_of_Vec4 (Vec4_of_Vec3 v s))))"


text \<open>
  \<^verbatim>\<open>Quat::ToEulerRadians()\<close>. The squares and \<^verbatim>\<open>test\<close> are computed in
  \<^verbatim>\<open>float\<close> and stored in \<^verbatim>\<open>double\<close>; \<^verbatim>\<open>unit\<close> and the comparisons are in
  \<^verbatim>\<open>double\<close>; \<^verbatim>\<open>M_PI\<close> is a \<^verbatim>\<open>double\<close>. \<^verbatim>\<open>atan2(x, w)\<close> has two
  \<^verbatim>\<open>float\<close> arguments and is read as the \<^verbatim>\<open>float\<close> overload; the calls with a
  \<^verbatim>\<open>double\<close> argument compute in \<^verbatim>\<open>double\<close>. The three components of the result
  are \<^verbatim>\<open>float\<close>.
\<close>

definition M_PI :: double where
  "M_PI = lit 3.14159265358979323846"

definition ToEulerRadians :: "Quat \<Rightarrow> Vec3" where
  "ToEulerRadians q =
     (let x = qx q; y = qy q; z = qz q; w = qw q;
          sqw = (convert (w * w) :: double);
          sqx = (convert (x * x) :: double);
          sqy = (convert (y * y) :: double);
          sqz = (convert (z * z) :: double);
          unit = sqx + sqy + sqz + sqw;
          test = (convert (x * y + z * w) :: double)
      in if lit 0.499 * unit < test then
           \<lparr>x3 = convert (M_PI / Fin 2), y3 = Fin 2 * atan2f x w, z3 = 0\<rparr>
         else if test < - lit 0.499 * unit then
           \<lparr>x3 = convert (- M_PI / Fin 2), y3 = - Fin 2 * atan2f x w, z3 = 0\<rparr>
         else
           \<lparr>x3 = convert (asinf (convert (Fin (- 2) * (x * z - y * w)) / unit)),
            y3 = convert (atan2f (convert (Fin 2 * y * w + Fin 2 * x * z)) (sqw - sqx - sqy + sqz)),
            z3 = convert (atan2f (convert (Fin 2 * x * w + Fin 2 * y * z)) (sqw + sqx - sqy - sqz))\<rparr>)"

text \<open>
  \<^verbatim>\<open>Quat::ToMatrix(const Quat& q)\<close>. \<^verbatim>\<open>mat\<close> points at the 16 cells in row-major
  order. The six off-diagonal cells are computed in \<^verbatim>\<open>double\<close> (the literal
  \<^verbatim>\<open>2.0\<close>) and stored as \<^verbatim>\<open>float\<close>.
\<close>

definition Mat4_set_flat :: "Mat4 \<Rightarrow> nat \<Rightarrow> float \<Rightarrow> Mat4" where
  "Mat4_set_flat m k a = Mat4_set m (k div 4) (k mod 4) a"

definition two_times :: "float \<Rightarrow> float \<Rightarrow> float" where
  "two_times s invs = convert ((Fin 2 :: double) * convert s * convert invs)"

definition ToMatrix :: "Quat \<Rightarrow> Mat4" where
  "ToMatrix q =
     (let sqw = qw q * qw q;
          sqx = qx q * qx q;
          sqy = qy q * qy q;
          sqz = qz q * qz q;
          invs = 1 / (sqx + sqy + sqz + sqw);
          mat = Identity;
          mat = Mat4_set_flat mat 0 ((sqx - sqy - sqz + sqw) * invs);
          mat = Mat4_set_flat mat 5 ((- sqx + sqy - sqz + sqw) * invs);
          mat = Mat4_set_flat mat 10 ((- sqx - sqy + sqz + sqw) * invs);
          tmp1 = qx q * qy q;
          tmp2 = qz q * qw q;
          mat = Mat4_set_flat mat 4 (two_times (tmp1 + tmp2) invs);
          mat = Mat4_set_flat mat 1 (two_times (tmp1 - tmp2) invs);
          tmp1 = qx q * qz q;
          tmp2 = qy q * qw q;
          mat = Mat4_set_flat mat 8 (two_times (tmp1 - tmp2) invs);
          mat = Mat4_set_flat mat 2 (two_times (tmp1 + tmp2) invs);
          tmp1 = qy q * qz q;
          tmp2 = qx q * qw q;
          mat = Mat4_set_flat mat 9 (two_times (tmp1 + tmp2) invs);
          mat = Mat4_set_flat mat 6 (two_times (tmp1 - tmp2) invs)
      in mat)"

section \<open>Transforms (transforms.cpp)\<close>

text \<open>\<^verbatim>\<open>Transforms::Compose\<close>: \<^verbatim>\<open>T * R * S\<close>, with \<^verbatim>\<open>operator*\<close> being \<^verbatim>\<open>Multiply\<close>.\<close>

definition Compose :: "Vec3 \<Rightarrow> Quat \<Rightarrow> Vec3 \<Rightarrow> Mat4" where
  "Compose translation rotation scale =
     (let T = Translate translation;
          R = ToMatrix rotation;
          S = Scale scale
      in Multiply (Multiply T R) S)"

text \<open>
  \<^verbatim>\<open>Transforms::Decompose\<close>. The function returns \<^verbatim>\<open>bool\<close> and writes three output
  parameters; every \<^verbatim>\<open>return false\<close> comes before the first write. The model returns
  \<open>None\<close> for \<^verbatim>\<open>false\<close> and the three outputs (translation, rotation, scale) for
  \<^verbatim>\<open>true\<close>. \<^verbatim>\<open>SEDX_DEBUG\<close> is taken as not defined.

  \<^verbatim>\<open>Mat4 LocalMatrix(transform);\<close> calls the copy constructor; \<open>Decompose_local\<close> is
  the rest of the function, on \<^verbatim>\<open>LocalMatrix\<close>. \<^verbatim>\<open>Row\<close> is an array of three
  \<^verbatim>\<open>Vec3\<close>; \<^verbatim>\<open>q\<close> is an array of four floats, zero-initialised.
\<close>

definition Next :: "nat \<Rightarrow> nat" where
  "Next i = (if i = 0 then 1 else if i = 1 then 2 else 0)"

definition Decompose_local :: "Mat4 \<Rightarrow> (Vec3 \<times> Quat \<times> Vec3) option" where
  "Decompose_local LocalMatrix =
     (if epsilonEqual (Mat4_at LocalMatrix 3 3) 0 epsilon then None
         else if \<not> epsilonEqual (Mat4_at LocalMatrix 3 3) 1 (lit 0.00001) then None
         else if \<not> (epsilonEqual (Mat4_at LocalMatrix 0 3) 0 epsilon \<and>
                    epsilonEqual (Mat4_at LocalMatrix 1 3) 0 epsilon \<and>
                    epsilonEqual (Mat4_at LocalMatrix 2 3) 0 epsilon) then None
         else
           (let r3 = Mat4_row LocalMatrix 3;
                translation = \<lparr>x3 = x4 r3, y3 = y4 r3, z3 = z4 r3\<rparr>;
                LocalMatrix = Mat4_set_row LocalMatrix 3 \<lparr>x4 = 0, y4 = 0, z4 = 0, w4 = w4 r3\<rparr>;
                Row = (\<lambda>i. \<lparr>x3 = Mat4_at LocalMatrix i 0, y3 = Mat4_at LocalMatrix i 1,
                             z3 = Mat4_at LocalMatrix i 2\<rparr>);
                scale_x = sqrtf (x3 (Row 0) * x3 (Row 0) + y3 (Row 0) * y3 (Row 0) + z3 (Row 0) * z3 (Row 0));
                Row = Row(0 := Scale_to (Row 0) 1);
                scale_y = sqrtf (x3 (Row 1) * x3 (Row 1) + y3 (Row 1) * y3 (Row 1) + z3 (Row 1) * z3 (Row 1));
                Row = Row(1 := Scale_to (Row 1) 1);
                scale_z = sqrtf (x3 (Row 2) * x3 (Row 2) + y3 (Row 2) * y3 (Row 2) + z3 (Row 2) * z3 (Row 2));
                Row = Row(2 := Scale_to (Row 2) 1);
                scale = \<lparr>x3 = scale_x, y3 = scale_y, z3 = scale_z\<rparr>;
                trace = x3 (Row 0) + y3 (Row 1) + z3 (Row 2);
                rotation =
                  (if 0 < trace then
                     (let root = sqrtf (trace + 1);
                          qw = Fin (1 / 2) * root;
                          root = Fin (1 / 2) / root;
                          qx = root * (z3 (Row 1) - y3 (Row 2));
                          qy = root * (x3 (Row 2) - z3 (Row 0));
                          qz = root * (y3 (Row 0) - x3 (Row 1))
                      in Quat_wxyz qw qx qy qz)
                   else
                     (let i = (0::nat);
                          i = (if x3 (Row 0) < y3 (Row 1) then 1 else i);
                          i = (if Vec3_at (Row i) i < z3 (Row 2) then 2 else i);
                          j = Next i;
                          k = Next j;
                          root = sqrtf (Vec3_at (Row i) i - Vec3_at (Row j) j - Vec3_at (Row k) k + 1);
                          q = (\<lambda>n::nat. (0::float));
                          q = q(i := Fin (1 / 2) * root);
                          root = Fin (1 / 2) / root;
                          q = q(j := root * (Vec3_at (Row i) j + Vec3_at (Row j) i));
                          q = q(k := root * (Vec3_at (Row i) k + Vec3_at (Row k) i));
                          qw = root * (Vec3_at (Row j) k - Vec3_at (Row k) j)
                      in Quat_wxyz qw (q 0) (q 1) (q 2)))
            in Some (translation, rotation, scale)))"

definition Decompose :: "Mat4 \<Rightarrow> (Vec3 \<times> Quat \<times> Vec3) option" where
  "Decompose transform = (let LocalMatrix = Mat4_copy transform in Decompose_local LocalMatrix)"

section \<open>Legacy Matrix (matrix.h, matrix.cpp)\<close>

record Matrix =
  m00 :: float  m01 :: float  m02 :: float  m03 :: float
  m10 :: float  m11 :: float  m12 :: float  m13 :: float
  m20 :: float  m21 :: float  m22 :: float  m23 :: float
  m30 :: float  m31 :: float  m32 :: float  m33 :: float

text \<open>\<^verbatim>\<open>Matrix::Matrix()\<close>: the identity.\<close>

definition Matrix_default :: Matrix where
  "Matrix_default =
     \<lparr>m00 = 1, m01 = 0, m02 = 0, m03 = 0,
      m10 = 0, m11 = 1, m12 = 0, m13 = 0,
      m20 = 0, m21 = 0, m22 = 1, m23 = 0,
      m30 = 0, m31 = 0, m32 = 0, m33 = 1\<rparr>"

text \<open>\<^verbatim>\<open>Vec3 Matrix::operator*(const Vec3 &rhs) const\<close>\<close>

definition Matrix_mul_Vec3 :: "Matrix \<Rightarrow> Vec3 \<Rightarrow> Vec3" where
  "Matrix_mul_Vec3 m rhs =
     (let x = (x3 rhs * m00 m) + (y3 rhs * m10 m) + (z3 rhs * m20 m) + m30 m;
          y = (x3 rhs * m01 m) + (y3 rhs * m11 m) + (z3 rhs * m21 m) + m31 m;
          z = (x3 rhs * m02 m) + (y3 rhs * m12 m) + (z3 rhs * m22 m) + m32 m;
          w = (x3 rhs * m03 m) + (y3 rhs * m13 m) + (z3 rhs * m23 m) + m33 m;
          (x, y, z) = (if \<not> feq w 1 then (x / w, y / w, z / w) else (x, y, z))
      in \<lparr>x3 = x, y3 = y, z3 = z\<rparr>)"

text \<open>\<^verbatim>\<open>Vec4 Matrix::operator*(const Vec4 &rhs) const\<close>\<close>

definition Matrix_mul_Vec4 :: "Matrix \<Rightarrow> Vec4 \<Rightarrow> Vec4" where
  "Matrix_mul_Vec4 m rhs =
     \<lparr>x4 = (x4 rhs * m00 m) + (y4 rhs * m10 m) + (z4 rhs * m20 m) + (w4 rhs * m30 m),
      y4 = (x4 rhs * m01 m) + (y4 rhs * m11 m) + (z4 rhs * m21 m) + (w4 rhs * m31 m),
      z4 = (x4 rhs * m02 m) + (y4 rhs * m12 m) + (z4 rhs * m22 m) + (w4 rhs * m32 m),
      w4 = (x4 rhs * m03 m) + (y4 rhs * m13 m) + (z4 rhs * m23 m) + (w4 rhs * m33 m)\<rparr>"

text \<open>\<^verbatim>\<open>Matrix::GetScale()\<close>; \<^verbatim>\<open>xs\<close>, \<^verbatim>\<open>ys\<close> and \<^verbatim>\<open>zs\<close> are \<^verbatim>\<open>int\<close>.\<close>

definition GetScale :: "Matrix \<Rightarrow> Vec3" where
  "GetScale m =
     (let xs = (if sign (m00 m * m01 m * m02 m * m03 m) < 0 then - 1 else (1::int));
          ys = (if sign (m10 m * m11 m * m12 m * m13 m) < 0 then - 1 else (1::int));
          zs = (if sign (m20 m * m21 m * m22 m * m23 m) < 0 then - 1 else (1::int))
      in \<lparr>x3 = Fin (of_int xs) * sqrtf (m00 m * m00 m + m01 m * m01 m + m02 m * m02 m),
          y3 = Fin (of_int ys) * sqrtf (m10 m * m10 m + m11 m * m11 m + m12 m * m12 m),
          z3 = Fin (of_int zs) * sqrtf (m20 m * m20 m + m21 m * m21 m + m22 m * m22 m)\<rparr>)"

text \<open>\<^verbatim>\<open>Matrix::RotationMatrixToQuaternion\<close>; \<^verbatim>\<open>Quat quaternion;\<close> starts as the identity.\<close>

definition RotationMatrixToQuaternion :: "Matrix \<Rightarrow> Quat" where
  "RotationMatrixToQuaternion mRot =
     (let scale = m00 mRot + m11 mRot + m22 mRot
      in if 0 < scale then
           (let sqrt_r = sqrtf (scale + 1);
                w = sqrt_r * Fin (1 / 2);
                sqrt_r = Fin (1 / 2) / sqrt_r
            in \<lparr>qx = (m12 mRot - m21 mRot) * sqrt_r,
                qy = (m20 mRot - m02 mRot) * sqrt_r,
                qz = (m01 mRot - m10 mRot) * sqrt_r,
                qw = w\<rparr>)
         else if m11 mRot \<le> m00 mRot \<and> m22 mRot \<le> m00 mRot then
           (let sqrt_r = sqrtf (1 + m00 mRot - m11 mRot - m22 mRot);
                half = Fin (1 / 2) / sqrt_r
            in \<lparr>qx = Fin (1 / 2) * sqrt_r,
                qy = (m01 mRot + m10 mRot) * half,
                qz = (m02 mRot + m20 mRot) * half,
                qw = (m12 mRot - m21 mRot) * half\<rparr>)
         else if m22 mRot < m11 mRot then
           (let sqrt_r = sqrtf (1 + m11 mRot - m00 mRot - m22 mRot);
                half = Fin (1 / 2) / sqrt_r
            in \<lparr>qx = (m10 mRot + m01 mRot) * half,
                qy = Fin (1 / 2) * sqrt_r,
                qz = (m21 mRot + m12 mRot) * half,
                qw = (m20 mRot - m02 mRot) * half\<rparr>)
         else
           (let sqrt_r = sqrtf (1 + m22 mRot - m00 mRot - m11 mRot);
                half = Fin (1 / 2) / sqrt_r
            in \<lparr>qx = (m20 mRot + m02 mRot) * half,
                qy = (m21 mRot + m12 mRot) * half,
                qz = Fin (1 / 2) * sqrt_r,
                qw = (m01 mRot - m10 mRot) * half\<rparr>))"

text \<open>\<^verbatim>\<open>Matrix::GetRotation()\<close>; \<^verbatim>\<open>Quat::Identity()\<close> returns \<^verbatim>\<open>Quat()\<close>.\<close>

definition GetRotation :: "Matrix \<Rightarrow> Quat" where
  "GetRotation m =
     (let scale = GetScale m
      in if feq (x3 scale) 0 \<or> feq (y3 scale) 0 \<or> feq (z3 scale) 0 then Quat_default
         else
           (let normalized = Matrix_default;
                normalized = normalized
                  \<lparr>m00 := m00 m / x3 scale, m01 := m01 m / x3 scale, m02 := m02 m / x3 scale,
                   m03 := 0,
                   m10 := m10 m / y3 scale, m11 := m11 m / y3 scale, m12 := m12 m / y3 scale,
                   m13 := 0,
                   m20 := m20 m / z3 scale, m21 := m21 m / z3 scale, m22 := m22 m / z3 scale,
                   m23 := 0,
                   m30 := 0, m31 := 0, m32 := 0, m33 := 1\<rparr>
            in RotationMatrixToQuaternion normalized))"

section \<open>Definitions used to state the claims\<close>

text \<open>
  A value of the format: an infinity, NaN, or a real that rounding leaves unchanged. A
  \<^verbatim>\<open>float\<close> the program holds is always representable.
\<close>

definition representable :: "'f::len ieee \<Rightarrow> bool" where
  "representable a = (case a of Fin r \<Rightarrow> (round_ieee r :: 'f ieee) = Fin r | _ \<Rightarrow> True)"

text \<open>
  The perspective division, in the words of the specification: x, y and z of a
  homogeneous vector are divided by its w whenever w is not 1.
\<close>

definition perspective_divide :: "Vec4 \<Rightarrow> Vec3" where
  "perspective_divide h =
     (if feq (w4 h) 1 then \<lparr>x3 = x4 h, y3 = y4 h, z3 = z4 h\<rparr>
      else \<lparr>x3 = x4 h / w4 h, y3 = y4 h / w4 h, z3 = z4 h / w4 h\<rparr>)"

text \<open>Example inputs: the two identity matrices with 2 in the last cell, and a legacy
  matrix whose first row is zero.\<close>

definition scale2_Matrix :: Matrix where
  "scale2_Matrix = Matrix_default\<lparr>m33 := Fin 2\<rparr>"

definition scale2_Mat4 :: Mat4 where
  "scale2_Mat4 = Mat4_diagonal (Fin 1)\<lparr>row3 := \<lparr>x4 = Fin 0, y4 = Fin 0, z4 = Fin 0, w4 = Fin 2\<rparr>\<rparr>"

definition zero_row_Matrix :: Matrix where
  "zero_row_Matrix = Matrix_default\<lparr>m00 := Fin 0\<rparr>"















text \<open>The locals \<^verbatim>\<open>unit\<close> and \<^verbatim>\<open>test\<close> of \<^verbatim>\<open>Quat::ToEulerRadians\<close>.\<close>

definition ToEuler_unit :: "Quat \<Rightarrow> double" where
  "ToEuler_unit q =
     convert (qx q * qx q) + convert (qy q * qy q) + convert (qz q * qz q) + convert (qw q * qw q)"

definition ToEuler_test :: "Quat \<Rightarrow> double" where
  "ToEuler_test q = convert (qx q * qy q + qz q * qw q)"

text \<open>Not negative: a finite value \<open>\<ge> 0\<close> (either zero included), plus infinity, or NaN.\<close>

definition nonneg :: "'f ieee \<Rightarrow> bool" where
  "nonneg a = (case a of Fin r \<Rightarrow> 0 \<le> r | NZero \<Rightarrow> True | PInf \<Rightarrow> True | NInf \<Rightarrow> False | NaN \<Rightarrow> True)"

text \<open>
  The condition of the specification for a pole, in exact arithmetic on the values of the
  four components: they are finite and |x*y + z*w| > 0.499 * (x^2 + y^2 + z^2 + w^2).
\<close>

fun valof :: "'f ieee \<Rightarrow> real" where
  "valof (Fin x) = x"
| "valof _ = 0"

definition pole_condition :: "Quat \<Rightarrow> bool" where
  "pole_condition q =
     (is_finite (qx q) \<and> is_finite (qy q) \<and> is_finite (qz q) \<and> is_finite (qw q) \<and>
      (let x = valof (qx q); y = valof (qy q); z = valof (qz q); w = valof (qw q)
       in 499 / 1000 * (x * x + y * y + z * z + w * w) < \<bar>x * y + z * w\<bar>))"

text \<open>An input at the north pole: x = y = 1, z = w = 0; and the same direction scaled
  by 2^100.\<close>

definition gimbal_Quat :: Quat where
  "gimbal_Quat = \<lparr>qx = Fin 1, qy = Fin 1, qz = Fin 0, qw = Fin 0\<rparr>"

definition huge_Quat :: Quat where
  "huge_Quat = \<lparr>qx = Fin (2 ^ 100), qy = Fin (2 ^ 100), qz = Fin 0, qw = Fin 0\<rparr>"

text \<open>
  Two singular matrices: the one of MatrixEdgeTests.cpp (rows 0 and 1 equal), and one
  whose rows 1 and 2 are equal and whose last row holds 2^25.
\<close>

definition singular_A :: Mat4 where
  "singular_A =
     Mat4_of_rows \<lparr>x4 = Fin 1, y4 = Fin 0, z4 = Fin 0, w4 = Fin 0\<rparr>
                  \<lparr>x4 = Fin 1, y4 = Fin 0, z4 = Fin 0, w4 = Fin 0\<rparr>
                  \<lparr>x4 = Fin 0, y4 = Fin 1, z4 = Fin 0, w4 = Fin 0\<rparr>
                  \<lparr>x4 = Fin 0, y4 = Fin 0, z4 = Fin 1, w4 = Fin 1\<rparr>"

definition singular_B :: Mat4 where
  "singular_B =
     Mat4_of_rows \<lparr>x4 = Fin 1, y4 = Fin 0, z4 = Fin 0, w4 = Fin 0\<rparr>
                  \<lparr>x4 = Fin 0, y4 = Fin 1, z4 = Fin 1, w4 = Fin 1\<rparr>
                  \<lparr>x4 = Fin 0, y4 = Fin 1, z4 = Fin 1, w4 = Fin 1\<rparr>
                  \<lparr>x4 = Fin 0, y4 = Fin 33554432, z4 = Fin 1, w4 = Fin 0\<rparr>"

text \<open>
  The vector (1, 1, 0), and what \<^verbatim>\<open>Normalize\<close> makes of it: both components are
  \<open>11863283 / 2^24\<close>, the float nearest to the reciprocal of the float nearest to the
  square root of 2.
\<close>

definition diag_v :: Vec3 where
  "diag_v = \<lparr>x3 = Fin 1, y3 = Fin 1, z3 = Fin 0\<rparr>"

definition unit_diag :: Vec3 where
  "unit_diag = \<lparr>x3 = Fin (11863283 / 16777216), y3 = Fin (11863283 / 16777216), z3 = Fin 0\<rparr>"

text \<open>The translation (1, 2, 3).\<close>

definition t123 :: Vec3 where
  "t123 = \<lparr>x3 = Fin 1, y3 = Fin 2, z3 = Fin 3\<rparr>"

section \<open>Properties\<close>

subsection \<open>Rounding\<close>


lemma prec_float [simp]: "prec TYPE(32) = 24" "emax TYPE(32) = 127"
  by (simp_all add: prec_def emax_def)

lemma prec_double [simp]: "prec TYPE(64) = 53" "emax TYPE(64) = 1023"
  by (simp_all add: prec_def emax_def)

lemma round_ieee_zero [simp]: "round_ieee 0 = Fin 0"
  by (simp add: round_ieee_def)

lemma round_ieee_not_NaN [simp]: "round_ieee x \<noteq> NaN"
  by (simp add: round_ieee_def Let_def)

lemma round_ieee_minus: "x \<noteq> 0 \<Longrightarrow> (round_ieee (- x) :: 'f::len ieee) = fneg (round_ieee x)"
  by (simp add: round_ieee_def Let_def)

lemma round_half_even_nonneg: "0 \<le> y \<Longrightarrow> 0 \<le> round_half_even y"
  by (auto simp: round_half_even_def Let_def)

lemma round_half_even_of_int [simp]: "round_half_even (of_int k) = k"
  by (simp add: round_half_even_def Let_def)

lemma round_half_even_le: "y < of_int k \<Longrightarrow> round_half_even y \<le> k"
proof -
  assume "y < of_int k"
  then have "\<lfloor>y\<rfloor> < k" by (simp add: floor_less_iff)
  then show ?thesis by (auto simp: round_half_even_def Let_def)
qed

lemma round_ieee_eqI:
  fixes x :: real and e m :: int
  assumes "0 < x" and "2 powr of_int e \<le> x" and "x < 2 powr of_int (e + 1)"
    and "1 - emax TYPE('f) \<le> e"
    and "round_half_even (x / 2 powr of_int (e - prec TYPE('f) + 1)) = m"
    and "of_int m * (2::real) powr of_int (e - prec TYPE('f) + 1) < 2 powr of_int (emax TYPE('f) + 1)"
  shows "(round_ieee x :: 'f::len ieee) = Fin (of_int m * 2 powr of_int (e - prec TYPE('f) + 1))"
proof -
  have "\<lfloor>log 2 x\<rfloor> = e"
    using assms(1-3) by (simp add: floor_log_eq_powr_iff)
  then have "max \<lfloor>log 2 \<bar>x\<bar>\<rfloor> (1 - emax TYPE('f)) = e"
    using assms(1,4) by simp
  then show ?thesis
    using assms(1,5,6) by (simp add: round_ieee_def Let_def)
qed

lemma round_float_small:
  fixes x :: real and n :: nat
  assumes "2 ^ 23 \<le> x * 2 ^ n" and "x * 2 ^ n < 2 ^ 24" and "n \<le> 149"
    and "round_half_even (x * 2 ^ n) = m"
  shows "(round_ieee x :: float) = Fin (of_int m / 2 ^ n)"
proof -
  have pos: "0 < x"
  proof (rule ccontr)
    assume "\<not> 0 < x"
    then have "x * 2 ^ n \<le> 0" by (simp add: mult_le_0_iff)
    with assms(1) show False by (smt (verit) zero_less_power)
  qed
  have q: "2 powr of_int (23 - int n - prec TYPE(32) + 1) = 1 / (2::real) ^ n"
    by (simp add: powr_minus powr_realpow field_simps)
  have q': "2 powr (- real n) = 1 / (2::real) ^ n"
    by (simp add: powr_minus powr_realpow field_simps)
  have e1: "2 powr of_int (23 - int n) = 2 ^ 23 / (2::real) ^ n"
    by (simp add: powr_diff powr_realpow)
  have e2: "2 powr of_int (23 - int n + 1) = 2 ^ 24 / (2::real) ^ n"
  proof -
    have "23 - int n + 1 = 24 - int n" by simp
    then show ?thesis by (simp add: powr_diff powr_realpow)
  qed
  have lo: "2 powr of_int (23 - int n) \<le> x"
    unfolding e1 using assms(1) by (simp add: field_simps)
  have hi: "x < 2 powr of_int (23 - int n + 1)"
    unfolding e2 using assms(2) by (simp add: field_simps)
  have mle: "m \<le> 2 ^ 24"
    using round_half_even_le[of "x * 2 ^ n" "2 ^ 24"] assms(2,4) by simp
  have "(2::real) ^ n \<ge> 1" by simp
  have ovf: "of_int m * (2::real) powr of_int (23 - int n - prec TYPE(32) + 1) < 2 powr of_int (emax TYPE(32) + 1)"
  proof -
    have "of_int m / (2::real) ^ n \<le> 2 ^ 24"
    proof (cases "0 \<le> m")
      case True
      then have "of_int m / (2::real) ^ n \<le> of_int m"
        using \<open>(2::real) ^ n \<ge> 1\<close> by (simp add: field_simps mult_le_cancel_left1)
      also have "\<dots> \<le> 2 ^ 24" using mle by (metis of_int_le_iff of_int_numeral of_int_power)
      finally show ?thesis .
    next
      case False
      then have "of_int m / (2::real) ^ n \<le> 0" by (simp add: divide_le_0_iff)
      then show ?thesis by simp
    qed
    moreover have "(2::real) ^ 24 < 2 powr of_int (emax TYPE(32) + 1)"
      by simp
    ultimately show ?thesis by (simp add: q')
  qed
  have "(round_ieee x :: float) = Fin (of_int m * 2 powr of_int (23 - int n - prec TYPE(32) + 1))"
    by (rule round_ieee_eqI[OF pos lo hi]) (use assms(3,4) ovf in \<open>simp_all add: q'\<close>)
  then show ?thesis by (simp add: q')
qed


lemma round_float_large:
  fixes x :: real and n :: nat
  assumes "2 ^ 23 \<le> x / 2 ^ n" and "x / 2 ^ n < 2 ^ 24" and "n \<le> 103"
    and "round_half_even (x / 2 ^ n) = m"
  shows "(round_ieee x :: float) = Fin (of_int m * 2 ^ n)"
proof -
  have pos: "0 < x"
  proof (rule ccontr)
    assume "\<not> 0 < x"
    then have "x / 2 ^ n \<le> 0" by (simp add: divide_le_0_iff)
    with assms(1) show False by (smt (verit) zero_less_power)
  qed
  have q': "2 powr (real n) = (2::real) ^ n"
    by (simp add: powr_realpow)
  have e1: "2 powr of_int (23 + int n) = 2 ^ 23 * (2::real) ^ n"
    by (simp add: powr_add powr_realpow)
  have e2: "2 powr of_int (23 + int n + 1) = 2 ^ 24 * (2::real) ^ n"
  proof -
    have "23 + int n + 1 = 24 + int n" by simp
    then show ?thesis by (simp add: powr_add powr_realpow)
  qed
  have lo: "2 powr of_int (23 + int n) \<le> x"
    unfolding e1 using assms(1) by (simp add: field_simps)
  have hi: "x < 2 powr of_int (23 + int n + 1)"
    unfolding e2 using assms(2) by (simp add: field_simps)
  have mle: "m \<le> 2 ^ 24"
    using round_half_even_le[of "x / 2 ^ n" "2 ^ 24"] assms(2,4) by simp
  have ovf: "of_int m * (2::real) ^ n < 2 ^ 128"
  proof -
    have "real_of_int m \<le> real_of_int (2 ^ 24)"
      using mle by (simp only: of_int_le_iff)
    then have "of_int m * (2::real) ^ n \<le> 2 ^ 24 * 2 ^ n"
      by (intro mult_right_mono) simp_all
    also have "\<dots> = 2 ^ (24 + n)" by (simp add: power_add)
    also have "\<dots> < 2 ^ 128" by (rule power_strict_increasing) (use assms(3) in simp_all)
    finally show ?thesis .
  qed
  have "(round_ieee x :: float) = Fin (of_int m * 2 powr of_int (23 + int n - prec TYPE(32) + 1))"
    by (rule round_ieee_eqI[OF pos lo hi]) (use assms(3,4) ovf in \<open>simp_all add: q'\<close>)
  then show ?thesis by (simp add: q')
qed

lemma round_float_int:
  fixes k :: int
  assumes "\<bar>k\<bar> < 2 ^ 24"
  shows "(round_ieee (of_int k) :: float) = Fin (of_int k)"
proof -
  have pos: "(round_ieee (of_int k) :: float) = Fin (of_int k)" if "0 < k" "k < 2 ^ 24" for k :: int
  proof -
    define e where "e = \<lfloor>log 2 (of_int k)\<rfloor>"
    have kpos: "0 < (of_int k :: real)" using that by simp
    have lo: "2 powr of_int e \<le> (of_int k :: real)" and hi: "(of_int k :: real) < 2 powr of_int (e + 1)"
      using floor_log_eq_powr_iff[of "of_int k" 2 e] kpos by (simp_all add: e_def)
    have "(1::real) \<le> of_int k" using that by simp
    then have "0 \<le> log 2 (of_int k)" by simp
    then have e0: "0 \<le> e" by (simp add: e_def)
    have "(of_int k :: real) < 2 ^ 24" using that by (metis of_int_less_iff of_int_numeral of_int_power)
    then have lt24: "2 powr of_int e < (2::real) ^ 24" using lo by linarith
    have "e < 24"
    proof (rule ccontr)
      assume "\<not> e < 24"
      then have "(24::real) \<le> of_int e" by simp
      then have "(2::real) powr 24 \<le> 2 powr of_int e" by (intro powr_mono) simp_all
      with lt24 show False by simp
    qed
    define d where "d = nat (23 - e)"
    have de: "int d = 23 - e" using \<open>e < 24\<close> by (simp add: d_def)
    have q: "2 powr (real_of_int e - 23) = 1 / (2::real) ^ d"
    proof -
      have "real_of_int e - 23 = - real d" using de by linarith
      then have "2 powr (real_of_int e - 23) = 2 powr (- real d)" by (simp only:)
      also have "\<dots> = 1 / (2::real) ^ d" by (simp add: powr_minus powr_realpow field_simps)
      finally show ?thesis .
    qed
    have rh: "round_half_even (of_int k / 2 powr (real_of_int e - 23)) = k * 2 ^ d"
    proof -
      have "of_int k / 2 powr (real_of_int e - 23) = of_int (k * 2 ^ d)" by (simp add: q)
      then show ?thesis by (simp only: round_half_even_of_int)
    qed
    have "(round_ieee (of_int k) :: float) = Fin (of_int (k * 2 ^ d) * 2 powr of_int (e - prec TYPE(32) + 1))"
    proof (rule round_ieee_eqI[OF kpos lo hi])
      show "1 - emax TYPE(32) \<le> e" using e0 by simp
      show "round_half_even (of_int k / 2 powr of_int (e - prec TYPE(32) + 1)) = k * 2 ^ d"
        using rh by simp
      show "of_int (k * 2 ^ d) * (2::real) powr of_int (e - prec TYPE(32) + 1) < 2 powr of_int (emax TYPE(32) + 1)"
        using \<open>(of_int k :: real) < 2 ^ 24\<close> by (simp add: q)
    qed
    then show ?thesis by (simp add: q)
  qed
  consider "k = 0" | "0 < k" | "k < 0" by linarith
  then show ?thesis
  proof cases
    case 1 then show ?thesis by simp
  next
    case 2 then show ?thesis using pos[of k] assms by simp
  next
    case 3
    then have "(round_ieee (of_int (- k)) :: float) = Fin (of_int (- k))"
      using pos[of "- k"] assms by simp
    moreover have "(round_ieee (of_int k) :: float) = fneg (round_ieee (of_int (- k)))"
      using 3 round_ieee_minus[of "of_int (- k)", where 'f = 32] by simp
    ultimately show ?thesis using 3 by simp
  qed
qed

lemma round_float_numeral [simp]:
  "(numeral k :: int) < 16777216 \<Longrightarrow> (round_ieee (numeral k) :: float) = Fin (numeral k)"
  using round_float_int[of "numeral k"] by simp

lemma round_float_one [simp]: "(round_ieee 1 :: float) = Fin 1"
  using round_float_int[of 1] by simp

lemma round_half_even_numeral [simp]: "round_half_even (numeral k) = numeral k"
  using round_half_even_of_int[of "numeral k"] by simp

subsection \<open>The claims\<close>

lemma Mat4_copy_is_zero: "Mat4_copy m = Mat4_default"
  by (simp add: Mat4_copy_def Mat4_default_def)

text \<open>
  C2. The claim is that a copy-constructed Mat4 has the 16 entries of its source and
  compares equal to it. The copy constructor ignores its argument: the copy of the
  identity matrix is the zero matrix, its entry [0][0] is 0 and not 1, and
  \<^verbatim>\<open>operator==\<close> tells the two apart.
\<close>

theorem Mat4_copy_Identity_differs:
  "Mat4_copy Identity = Mat4_default \<and> Mat4_at (Mat4_copy Identity) 0 0 = Fin 0 \<and>
   Mat4_at Identity 0 0 = Fin 1 \<and> \<not> Mat4_eq (Mat4_copy Identity) Identity"
  by (simp add: Mat4_copy_def Mat4_default_def Identity_def Mat4_diagonal_def Mat4_eq_def
      Vec4_eq_def feq_def TVector4_def Mat4_at_def Mat4_row_def Vec4_at_def zero_ieee_def one_ieee_def)

lemma Decompose_fails: "Decompose m = None"
  by (simp add: Decompose_def Decompose_local_def Mat4_copy_def epsilonEqual_def epsilon_def Mat4_at_def Mat4_row_def
      Vec4_at_def TVector4_def zero_ieee_def minus_ieee_def abs_ieee_def less_eq_ieee_def feq_def)

text \<open>
  C1. The claim is that Decompose applied to Compose(T, R, S) returns true and gives back
  (T, R, S) approximately. Decompose starts by copy-constructing its argument into
  \<^verbatim>\<open>LocalMatrix\<close>; the copy is the zero matrix, so the first test,
  \<^verbatim>\<open>epsilonEqual(LocalMatrix[3][3], 0, epsilon)\<close>, holds and the function returns false,
  for every composed matrix and indeed for every argument.
\<close>

theorem Decompose_Compose_fails:
  "Decompose (Compose translation rotation scale) = None"
  by (rule Decompose_fails)

text \<open>
  C5. For every quaternion whose squared magnitude, as GetNormalized computes it, is
  \<open>\<le> 0\<close>, GetNormalized returns the identity (0, 0, 0, 1). The in-place Normalize has
  no guard: it divides each component by the magnitude whatever it is, and the zero
  quaternion becomes (NaN, NaN, NaN, NaN).
\<close>

theorem GetNormalized_guard_Normalize_unguarded:
  "(qw q * qw q + qx q * qx q + qy q * qy q + qz q * qz q \<le> 0 \<longrightarrow>
      GetNormalized q = \<lparr>qx = Fin 0, qy = Fin 0, qz = Fin 0, qw = Fin 1\<rparr>) \<and>
   Quat_Normalize q =
     (let mag = sqrtf (qw q * qw q + qx q * qx q + qy q * qy q + qz q * qz q)
      in \<lparr>qx = qx q / mag, qy = qy q / mag, qz = qz q / mag, qw = qw q / mag\<rparr>) \<and>
   Quat_Normalize \<lparr>qx = Fin 0, qy = Fin 0, qz = Fin 0, qw = Fin 0\<rparr> =
     \<lparr>qx = NaN, qy = NaN, qz = NaN, qw = NaN\<rparr>"
  by (simp add: GetNormalized_def Quat_Normalize_def Quat_default_def Let_def zero_ieee_def
      one_ieee_def times_ieee_def plus_ieee_def divide_ieee_def)

theorem GetNormalized_guard_witness:
  "GetNormalized \<lparr>qx = Fin 0, qy = Fin 0, qz = Fin 0, qw = Fin 0\<rparr> =
     \<lparr>qx = Fin 0, qy = Fin 0, qz = Fin 0, qw = Fin 1\<rparr>"
  using GetNormalized_guard_Normalize_unguarded[of "\<lparr>qx = Fin 0, qy = Fin 0, qz = Fin 0, qw = Fin 0\<rparr>"]
  by (simp add: times_ieee_def plus_ieee_def less_eq_ieee_def feq_def zero_ieee_def)

lemma one_times_representable: "representable a \<Longrightarrow> Fin 1 * a = a"
  by (cases a) (simp_all add: representable_def times_ieee_def)

lemma Multiply_Vec4_unfold:
  "Multiply_Vec4 m v =
     \<lparr>x4 = 0 + Mat4_at m 0 0 * x4 v + Mat4_at m 0 1 * y4 v + Mat4_at m 0 2 * z4 v + Mat4_at m 0 3 * w4 v,
      y4 = 0 + Mat4_at m 1 0 * x4 v + Mat4_at m 1 1 * y4 v + Mat4_at m 1 2 * z4 v + Mat4_at m 1 3 * w4 v,
      z4 = 0 + Mat4_at m 2 0 * x4 v + Mat4_at m 2 1 * y4 v + Mat4_at m 2 2 * z4 v + Mat4_at m 2 3 * w4 v,
      w4 = 0 + Mat4_at m 3 0 * x4 v + Mat4_at m 3 1 * y4 v + Mat4_at m 3 2 * z4 v + Mat4_at m 3 3 * w4 v\<rparr>"
proof -
  have l: "[0..<4] = [0, 1, 2, 3]" by (simp add: upt_rec)
  show ?thesis
    by (simp add: Multiply_Vec4_def l Vec4_set_def Vec4_at_def TVector4_def)
qed

text \<open>
  C6. The legacy \<^verbatim>\<open>Matrix::operator*(Vec3)\<close> computes the full homogeneous product (the
  product with the vector promoted to w = 1) and divides x, y and z by the resulting w
  whenever that is not 1. \<^verbatim>\<open>Mat4::operator*(Vec3)\<close> promotes the vector to w = 1 and
  returns the product itself, all four components, with no division. The legacy operator
  adds the cells m30 to m33 where the promoted product multiplies them by 1; the two
  agree on every float, that is, when these four cells are representable.
\<close>

theorem mul_Vec3_contracts:
  "(representable (m30 m) \<and> representable (m31 m) \<and> representable (m32 m) \<and> representable (m33 m)
      \<longrightarrow> Matrix_mul_Vec3 m v = perspective_divide (Matrix_mul_Vec4 m (Vec4_of_Vec3 v (Fin 1)))) \<and>
   Mat4_mul_Vec3 M v = Multiply_Vec4 M (Vec4_of_Vec3 v (Fin 1)) \<and>
   Mat4_mul_Vec3 M v =
     \<lparr>x4 = 0 + Mat4_at M 0 0 * x3 v + Mat4_at M 0 1 * y3 v + Mat4_at M 0 2 * z3 v + Mat4_at M 0 3 * Fin 1,
      y4 = 0 + Mat4_at M 1 0 * x3 v + Mat4_at M 1 1 * y3 v + Mat4_at M 1 2 * z3 v + Mat4_at M 1 3 * Fin 1,
      z4 = 0 + Mat4_at M 2 0 * x3 v + Mat4_at M 2 1 * y3 v + Mat4_at M 2 2 * z3 v + Mat4_at M 2 3 * Fin 1,
      w4 = 0 + Mat4_at M 3 0 * x3 v + Mat4_at M 3 1 * y3 v + Mat4_at M 3 2 * z3 v + Mat4_at M 3 3 * Fin 1\<rparr>"
  by (simp add: Matrix_mul_Vec3_def Matrix_mul_Vec4_def perspective_divide_def Vec4_of_Vec3_def
      Let_def one_times_representable Mat4_mul_Vec3_def Multiply_Vec4_unfold one_ieee_def)

theorem mul_Vec3_contracts_witness:
  "representable (m30 scale2_Matrix) \<and> representable (m31 scale2_Matrix) \<and>
   representable (m32 scale2_Matrix) \<and> representable (m33 scale2_Matrix) \<and>
   Matrix_mul_Vec3 scale2_Matrix \<lparr>x3 = Fin 2, y3 = Fin 4, z3 = Fin 6\<rparr>
     = perspective_divide (Matrix_mul_Vec4 scale2_Matrix (Vec4_of_Vec3 \<lparr>x3 = Fin 2, y3 = Fin 4, z3 = Fin 6\<rparr> (Fin 1))) \<and>
   Matrix_mul_Vec3 scale2_Matrix \<lparr>x3 = Fin 2, y3 = Fin 4, z3 = Fin 6\<rparr> = \<lparr>x3 = Fin 1, y3 = Fin 2, z3 = Fin 3\<rparr> \<and>
   Mat4_mul_Vec3 scale2_Mat4 \<lparr>x3 = Fin 2, y3 = Fin 4, z3 = Fin 6\<rparr> = \<lparr>x4 = Fin 2, y4 = Fin 4, z4 = Fin 6, w4 = Fin 2\<rparr>"
proof -
  have r: "representable (m30 scale2_Matrix) \<and> representable (m31 scale2_Matrix) \<and>
     representable (m32 scale2_Matrix) \<and> representable (m33 scale2_Matrix)"
    by (simp add: scale2_Matrix_def Matrix_default_def representable_def zero_ieee_def one_ieee_def)
  have a: "Matrix_mul_Vec3 scale2_Matrix \<lparr>x3 = Fin 2, y3 = Fin 4, z3 = Fin 6\<rparr> = \<lparr>x3 = Fin 1, y3 = Fin 2, z3 = Fin 3\<rparr>"
    by (simp add: Matrix_mul_Vec3_def scale2_Matrix_def Matrix_default_def Let_def zero_ieee_def
        one_ieee_def times_ieee_def plus_ieee_def divide_ieee_def feq_def)
  have b: "Mat4_mul_Vec3 scale2_Mat4 \<lparr>x3 = Fin 2, y3 = Fin 4, z3 = Fin 6\<rparr> = \<lparr>x4 = Fin 2, y4 = Fin 4, z4 = Fin 6, w4 = Fin 2\<rparr>"
    by (simp add: Mat4_mul_Vec3_def Multiply_Vec4_unfold Vec4_of_Vec3_def scale2_Mat4_def
        Mat4_diagonal_def Mat4_at_def Mat4_row_def Vec4_at_def zero_ieee_def
        one_ieee_def times_ieee_def plus_ieee_def)
  have c: "Matrix_mul_Vec3 scale2_Matrix \<lparr>x3 = Fin 2, y3 = Fin 4, z3 = Fin 6\<rparr>
     = perspective_divide (Matrix_mul_Vec4 scale2_Matrix (Vec4_of_Vec3 \<lparr>x3 = Fin 2, y3 = Fin 4, z3 = Fin 6\<rparr> (Fin 1)))"
    using r mul_Vec3_contracts[of scale2_Matrix "\<lparr>x3 = Fin 2, y3 = Fin 4, z3 = Fin 6\<rparr>" scale2_Mat4]
    by blast
  show ?thesis
    using r a b c by blast
qed

text \<open>
  C10. For every legacy Matrix whose GetScale() has a component equal to 0,
  GetRotation() returns the identity quaternion (0, 0, 0, 1).
\<close>

theorem GetRotation_zero_scale:
  "feq (x3 (GetScale m)) (Fin 0) \<or> feq (y3 (GetScale m)) (Fin 0) \<or> feq (z3 (GetScale m)) (Fin 0)
   \<Longrightarrow> GetRotation m = \<lparr>qx = Fin 0, qy = Fin 0, qz = Fin 0, qw = Fin 1\<rparr>"
  by (simp add: GetRotation_def Let_def Quat_default_def zero_ieee_def one_ieee_def)

theorem GetRotation_zero_scale_witness:
  "feq (x3 (GetScale zero_row_Matrix)) (Fin 0) \<and>
   GetRotation zero_row_Matrix = \<lparr>qx = Fin 0, qy = Fin 0, qz = Fin 0, qw = Fin 1\<rparr>"
proof -
  have h: "feq (x3 (GetScale zero_row_Matrix)) (Fin 0)"
    by (simp add: GetScale_def zero_row_Matrix_def Matrix_default_def sign_def Let_def
        times_ieee_def plus_ieee_def less_ieee_def zero_ieee_def one_ieee_def feq_def)
  then show ?thesis using GetRotation_zero_scale[of zero_row_Matrix] by simp
qed

lemma round_ieee_nonneg_cases:
  assumes "0 \<le> x"
  shows "(\<exists>r. (round_ieee x :: 'f::len ieee) = Fin r \<and> 0 \<le> r) \<or> (round_ieee x :: 'f ieee) = PInf"
proof (cases "x = 0")
  case True then show ?thesis by simp
next
  case False
  with assms have "0 < x" by simp
  then show ?thesis
    using round_half_even_nonneg[of "\<bar>x\<bar> / 2 powr real_of_int (max \<lfloor>log 2 \<bar>x\<bar>\<rfloor> (1 - emax TYPE('f)) - prec TYPE('f) + 1)"]
    by (auto simp: round_ieee_def Let_def)
qed

lemma nonneg_simps [simp]:
  "nonneg (Fin r) = (0 \<le> r)" "nonneg NZero" "nonneg PInf" "\<not> nonneg NInf" "nonneg NaN"
  by (simp_all add: nonneg_def)

lemma nonneg_round: "0 \<le> x \<Longrightarrow> nonneg (round_ieee x :: 'f::len ieee)"
  using round_ieee_nonneg_cases[of x, where 'f = 'f] by auto

lemma nonneg_square: "nonneg (a * a)" for a :: "'f::len ieee"
  by (cases a) (simp_all add: times_ieee_def nonneg_round)

lemma nonneg_convert: "nonneg a \<Longrightarrow> nonneg (convert a :: 'g::len ieee)"
  by (cases a) (simp_all add: nonneg_round)

lemma nonneg_add: "nonneg a \<Longrightarrow> nonneg b \<Longrightarrow> nonneg (a + b)" for a b :: "'f::len ieee"
  by (cases a; cases b) (simp_all add: plus_ieee_def nonneg_round)

lemma nonneg_mul: "nonneg a \<Longrightarrow> nonneg b \<Longrightarrow> nonneg (a * b)" for a b :: "'f::len ieee"
  by (cases a; cases b) (simp_all add: times_ieee_def nonneg_round)

lemma fneg_mul: "(- a) * b = - (a * b)" for a b :: "'f::len ieee"
  by (cases a; cases b) (auto simp: times_ieee_def uminus_ieee_def round_ieee_minus)

lemma nonneg_unit: "nonneg (ToEuler_unit q)"
  by (simp add: ToEuler_unit_def nonneg_add nonneg_convert nonneg_square)

lemma abs_split:
  fixes c t :: "'f::len ieee"
  assumes "nonneg c" and "c < \<bar>t\<bar>"
  shows "(c < t \<and> 0 < t) \<or> (\<not> c < t \<and> t < - c \<and> \<not> 0 < t)"
  using assms
  by (cases c; cases t)
    (auto simp: less_ieee_def abs_ieee_def uminus_ieee_def zero_ieee_def)

lemma convert_NaN [simp]: "(convert a :: 'g::len ieee) = NaN \<longleftrightarrow> a = NaN"
  by (cases a) simp_all

lemma add_not_NaN: "a + b \<noteq> NaN \<Longrightarrow> a \<noteq> NaN \<and> b \<noteq> NaN" for a b :: "'f::len ieee"
  by (cases a; cases b) (simp_all add: plus_ieee_def)

lemma mul_not_NaN: "a * b \<noteq> NaN \<Longrightarrow> a \<noteq> NaN \<and> b \<noteq> NaN" for a b :: "'f::len ieee"
  by (cases a; cases b) (simp_all add: times_ieee_def)

lemma less_not_NaN: "a < b \<Longrightarrow> a \<noteq> NaN \<and> b \<noteq> NaN" for a b :: "'f::len ieee"
  by (cases a; cases b) (simp_all add: less_ieee_def)

lemma abs_NaN [simp]: "\<bar>a\<bar> = NaN \<longleftrightarrow> a = NaN" for a :: "'f::len ieee"
  by (cases a) (simp_all add: abs_ieee_def)

lemma fneg_NaN [simp]: "fneg a = NaN \<longleftrightarrow> a = NaN"
  by (cases a) simp_all

lemma atan2f_not_NaN: "a \<noteq> NaN \<Longrightarrow> b \<noteq> NaN \<Longrightarrow> atan2f a b \<noteq> NaN"
  by (cases a; cases b) (simp_all add: atan2f_def)

lemma two_times_not_NaN: "c \<noteq> NaN \<Longrightarrow> Fin 2 * c \<noteq> NaN \<and> - Fin 2 * c \<noteq> NaN" for c :: "'f::len ieee"
  by (cases c) (simp_all add: times_ieee_def uminus_ieee_def)

lemma half_not_NaN: "c \<noteq> NaN \<Longrightarrow> c / Fin 2 \<noteq> NaN" for c :: "'f::len ieee"
  by (cases c) (simp_all add: divide_ieee_def)

lemma uminus_NaN [simp]: "- a = NaN \<longleftrightarrow> a = NaN" for a :: "'f::len ieee"
  by (simp add: uminus_ieee_def)

lemma round_double_small:
  fixes x :: real and n :: nat
  assumes "2 ^ 52 \<le> x * 2 ^ n" and "x * 2 ^ n < 2 ^ 53" and "n \<le> 1074"
    and "round_half_even (x * 2 ^ n) = m"
  shows "(round_ieee x :: double) = Fin (of_int m / 2 ^ n)"
proof -
  have pos: "0 < x"
  proof (rule ccontr)
    assume "\<not> 0 < x"
    then have "x * 2 ^ n \<le> 0" by (simp add: mult_le_0_iff)
    with assms(1) show False by (smt (verit) zero_less_power)
  qed
  have q: "2 powr of_int (52 - int n - prec TYPE(64) + 1) = 1 / (2::real) ^ n"
    by (simp add: powr_minus powr_realpow field_simps)
  have q': "2 powr (- real n) = 1 / (2::real) ^ n"
    by (simp add: powr_minus powr_realpow field_simps)
  have e1: "2 powr of_int (52 - int n) = 2 ^ 52 / (2::real) ^ n"
    by (simp add: powr_diff powr_realpow)
  have e2: "2 powr of_int (52 - int n + 1) = 2 ^ 53 / (2::real) ^ n"
  proof -
    have "52 - int n + 1 = 53 - int n" by simp
    then show ?thesis by (simp add: powr_diff powr_realpow)
  qed
  have lo: "2 powr of_int (52 - int n) \<le> x"
    unfolding e1 using assms(1) by (simp add: field_simps)
  have hi: "x < 2 powr of_int (52 - int n + 1)"
    unfolding e2 using assms(2) by (simp add: field_simps)
  have mle: "m \<le> 2 ^ 53"
    using round_half_even_le[of "x * 2 ^ n" "2 ^ 53"] assms(2,4) by simp
  have "(2::real) ^ n \<ge> 1" by simp
  have ovf: "of_int m * (2::real) powr of_int (52 - int n - prec TYPE(64) + 1) < 2 powr of_int (emax TYPE(64) + 1)"
  proof -
    have "of_int m / (2::real) ^ n \<le> 2 ^ 53"
    proof (cases "0 \<le> m")
      case True
      then have "of_int m / (2::real) ^ n \<le> of_int m"
        using \<open>(2::real) ^ n \<ge> 1\<close> by (simp add: field_simps mult_le_cancel_left1)
      also have "\<dots> \<le> 2 ^ 53" using mle by (metis of_int_le_iff of_int_numeral of_int_power)
      finally show ?thesis .
    next
      case False
      then have "of_int m / (2::real) ^ n \<le> 0" by (simp add: divide_le_0_iff)
      then show ?thesis by simp
    qed
    moreover have "(2::real) ^ 53 < 2 powr of_int (emax TYPE(64) + 1)"
      by simp
    ultimately show ?thesis by (simp add: q')
  qed
  have "(round_ieee x :: double) = Fin (of_int m * 2 powr of_int (52 - int n - prec TYPE(64) + 1))"
    by (rule round_ieee_eqI[OF pos lo hi]) (use assms(3,4) ovf in \<open>simp_all add: q'\<close>)
  then show ?thesis by (simp add: q')
qed

lemma lit_0499: "(lit 0.499 :: double) = Fin (8989184856231510 / 2 ^ 54)"
proof -
  have "(round_ieee (499 / 10 ^ 3) :: double) = Fin (of_int 8989184856231510 / 2 ^ 54)"
    by (rule round_double_small) (simp_all add: round_half_even_def Let_def)
  then show ?thesis by (simp add: lit_def)
qed

lemma round_double_one [simp]: "(round_ieee 1 :: double) = Fin 1"
  using round_double_small[where x = 1 and n = 52 and m = "2 ^ 52"] by simp

lemma round_double_two [simp]: "(round_ieee 2 :: double) = Fin 2"
  using round_double_small[where x = 2 and n = 51 and m = "2 ^ 52"] by simp

lemma M_PI_value: "M_PI = Fin (7074237752028440 / 2 ^ 51)"
proof -
  have "(round_ieee (314159265358979323846 / 10 ^ 20) :: double) = Fin (of_int 7074237752028440 / 2 ^ 51)"
    by (rule round_double_small) (simp_all add: round_half_even_def Let_def)
  then show ?thesis by (simp add: M_PI_def lit_def)
qed

lemma half_M_PI: "M_PI / Fin 2 = Fin (7074237752028440 / 2 ^ 52)"
proof -
  have "(round_ieee (7074237752028440 / 2 ^ 51 / 2) :: double) = Fin (of_int 7074237752028440 / 2 ^ 52)"
    by (rule round_double_small) simp_all
  then show ?thesis by (simp add: M_PI_value divide_ieee_def)
qed

lemma half_pi_float: "(round_ieee (7074237752028440 / 2 ^ 52) :: float) = Fin (13176795 / 2 ^ 23)"
proof -
  have "(round_ieee (7074237752028440 / 2 ^ 52) :: float) = Fin (of_int 13176795 / 2 ^ 23)"
    by (rule round_float_small) (simp_all add: round_half_even_def Let_def)
  then show ?thesis by simp
qed

lemma pitch_north: "(convert (M_PI / Fin 2) :: float) = Fin (13176795 / 2 ^ 23)"
  unfolding half_M_PI by (simp add: half_pi_float[simplified])

lemma pitch_south: "(convert (- M_PI / Fin 2) :: float) = Fin (- (13176795 / 2 ^ 23))"
proof -
  have "(round_ieee (- (7074237752028440 / 2 ^ 51 / 2)) :: double) = fneg (round_ieee (7074237752028440 / 2 ^ 51 / 2))"
    by (rule round_ieee_minus) simp
  moreover have "(round_ieee (7074237752028440 / 2 ^ 51 / 2) :: double) = Fin (of_int 7074237752028440 / 2 ^ 52)"
    by (rule round_double_small) simp_all
  ultimately have h: "- M_PI / Fin 2 = Fin (- (7074237752028440 / 2 ^ 52))"
    by (simp add: M_PI_value divide_ieee_def uminus_ieee_def)
  have "(round_ieee (- (7074237752028440 / 2 ^ 52)) :: float) = fneg (round_ieee (7074237752028440 / 2 ^ 52))"
    by (rule round_ieee_minus) simp
  then show ?thesis unfolding h by (simp add: half_pi_float[simplified])
qed

text \<open>
  C4, as amended. For every quaternion for which the function's own comparison finds a
  pole, that is, the \<^verbatim>\<open>float\<close> value of x*y + z*w exceeds in absolute value 0.499 times
  the sum of the \<^verbatim>\<open>float\<close> squares of the components, ToEulerRadians returns
  yaw = 2 * atan2(x, w), negated at the south pole, pitch = +pi/2 or -pi/2 according to
  the sign of the test value, and roll = 0; no component is NaN. The pitch is the
  \<^verbatim>\<open>float\<close> nearest to \<^verbatim>\<open>M_PI / 2\<close>, 13176795 / 2^23, or its negation.
\<close>


theorem ToEulerRadians_gimbal_lock:
  assumes "lit 0.499 * ToEuler_unit q < \<bar>ToEuler_test q\<bar>"
  shows "ToEulerRadians q =
           (if 0 < ToEuler_test q
            then \<lparr>x3 = Fin (13176795 / 2 ^ 23), y3 = Fin 2 * atan2f (qx q) (qw q), z3 = Fin 0\<rparr>
            else \<lparr>x3 = Fin (- (13176795 / 2 ^ 23)), y3 = - Fin 2 * atan2f (qx q) (qw q), z3 = Fin 0\<rparr>) \<and>
         x3 (ToEulerRadians q) \<noteq> NaN \<and> y3 (ToEulerRadians q) \<noteq> NaN \<and> z3 (ToEulerRadians q) \<noteq> NaN"
proof -
  let ?c = "lit 0.499 * ToEuler_unit q" and ?t = "ToEuler_test q"
  have nn: "nonneg ?c"
    by (intro nonneg_mul nonneg_unit) (simp add: lit_def nonneg_round)
  from abs_split[OF nn assms]
  have split: "(?c < ?t \<and> 0 < ?t) \<or> (\<not> ?c < ?t \<and> ?t < - lit 0.499 * ToEuler_unit q \<and> \<not> 0 < ?t)"
    by (simp add: fneg_mul)
  have eq: "ToEulerRadians q =
           (if 0 < ToEuler_test q
            then \<lparr>x3 = Fin (13176795 / 2 ^ 23), y3 = Fin 2 * atan2f (qx q) (qw q), z3 = Fin 0\<rparr>
            else \<lparr>x3 = Fin (- (13176795 / 2 ^ 23)), y3 = - Fin 2 * atan2f (qx q) (qw q), z3 = Fin 0\<rparr>)"
    using split
    by (auto simp: ToEulerRadians_def Let_def ToEuler_unit_def ToEuler_test_def zero_ieee_def
        pitch_north[simplified] pitch_south[simplified])
  have "?t \<noteq> NaN" using less_not_NaN[OF assms] by simp
  then have "qx q * qy q + qz q * qw q \<noteq> NaN" by (simp add: ToEuler_test_def)
  then have "qx q \<noteq> NaN" "qw q \<noteq> NaN"
    using add_not_NaN mul_not_NaN by blast+
  then have at: "atan2f (qx q) (qw q) \<noteq> NaN" by (rule atan2f_not_NaN)
  show ?thesis
    using eq two_times_not_NaN[OF at] by simp
qed

theorem ToEulerRadians_gimbal_lock_witness:
  "lit 0.499 * ToEuler_unit gimbal_Quat < \<bar>ToEuler_test gimbal_Quat\<bar> \<and>
   ToEulerRadians gimbal_Quat =
     \<lparr>x3 = Fin (13176795 / 2 ^ 23), y3 = Fin 2 * atan2f (Fin 1) (Fin 0), z3 = Fin 0\<rparr>"
proof -
  have u: "ToEuler_unit gimbal_Quat = Fin 2"
    by (simp add: ToEuler_unit_def gimbal_Quat_def times_ieee_def plus_ieee_def)
  have t: "ToEuler_test gimbal_Quat = Fin 1"
    by (simp add: ToEuler_test_def gimbal_Quat_def times_ieee_def plus_ieee_def)
  have "(round_ieee (8989184856231510 / 2 ^ 54 * 2) :: double) = Fin (of_int 8989184856231510 / 2 ^ 53)"
    by (rule round_double_small) simp_all
  then have "(lit 0.499 :: double) * Fin 2 = Fin (8989184856231510 / 2 ^ 53)"
    unfolding lit_0499 times_ieee_def by simp
  then have h: "lit 0.499 * ToEuler_unit gimbal_Quat < \<bar>ToEuler_test gimbal_Quat\<bar>"
    unfolding u t by (simp add: abs_ieee_def less_ieee_def)
  have "0 < ToEuler_test gimbal_Quat"
    by (simp add: t zero_ieee_def less_ieee_def)
  then show ?thesis
    using h ToEulerRadians_gimbal_lock[OF h] by (simp add: gimbal_Quat_def)
qed

lemma round_half_even_ge_floor: "\<lfloor>y\<rfloor> \<le> round_half_even y"
  by (auto simp: round_half_even_def Let_def)

lemma round_float_huge:
  fixes x :: real
  assumes "2 ^ 128 \<le> x"
  shows "(round_ieee x :: float) = PInf"
proof -
  have pos: "0 < x" using assms by (smt (verit) zero_less_power)
  define e where "e = \<lfloor>log 2 x\<rfloor>"
  have lo: "2 powr of_int e \<le> x"
    using floor_log_eq_powr_iff[of x 2 e] pos by (simp add: e_def)
  have p: "(2::real) powr 128 \<le> x" using assms by simp
  have "(128::real) \<le> log 2 x"
    by (rule iffD2[OF le_log_iff]) (use p pos in simp_all)
  then have e128: "128 \<le> e" by (simp add: e_def le_floor_iff)
  define q :: real where "q = 2 powr of_int (e - 23)"
  have qpos: "0 < q" by (simp add: q_def)
  have split: "2 powr of_int e = 2 ^ 23 * q"
  proof -
    have "(2::real) powr of_int e = 2 powr (23 + of_int (e - 23))" by simp
    also have "\<dots> = 2 powr 23 * 2 powr of_int (e - 23)" by (simp only: powr_add)
    finally show ?thesis by (simp add: q_def)
  qed
  have "2 ^ 23 \<le> x / q" using lo qpos by (simp add: split field_simps)
  then have "(2 ^ 23 :: int) \<le> \<lfloor>x / q\<rfloor>" by (simp add: le_floor_iff)
  then have "(2 ^ 23 :: int) \<le> round_half_even (x / q)"
    using round_half_even_ge_floor[of "x / q"] by linarith
  then have "(2 ^ 23 :: real) \<le> of_int (round_half_even (x / q))"
    by (metis of_int_le_iff of_int_numeral of_int_power)
  then have "2 ^ 23 * q \<le> of_int (round_half_even (x / q)) * q"
    using qpos by (intro mult_right_mono) simp_all
  then have big: "2 powr of_int e \<le> of_int (round_half_even (x / q)) * q"
    by (simp add: split)
  have "(2::real) powr 128 \<le> 2 powr of_int e"
    using e128 by (intro powr_mono) simp_all
  with big have ovf: "2 powr 128 \<le> of_int (round_half_even (x / q)) * q" by linarith
  have m: "max \<lfloor>log 2 \<bar>x\<bar>\<rfloor> (1 - emax TYPE(32)) = e"
    using e128 pos by (simp add: e_def)
  show ?thesis
    using pos ovf unfolding round_ieee_def Let_def m
    by (simp add: q_def)
qed


lemma round_2p100: "(round_ieee (2 ^ 100) :: float) = Fin (2 ^ 100)"
proof -
  have "(round_ieee (2 ^ 100) :: float) = Fin (of_int 8388608 * 2 ^ 77)"
    by (rule round_float_large) simp_all
  then show ?thesis by simp
qed

lemma round_2p101: "(round_ieee (2 * 2 ^ 100) :: float) = Fin (2 ^ 101)"
proof -
  have "(round_ieee (2 * 2 ^ 100) :: float) = Fin (of_int 8388608 * 2 ^ 78)"
    by (rule round_float_large) simp_all
  then show ?thesis by simp
qed

lemma round_2p200: "(round_ieee (2 ^ 100 * 2 ^ 100) :: float) = PInf"
  by (rule round_float_huge) simp

lemma unit_huge: "ToEuler_unit huge_Quat = PInf"
  by (simp add: ToEuler_unit_def huge_Quat_def times_ieee_def plus_ieee_def round_2p200[simplified])

lemma test_huge: "ToEuler_test huge_Quat = PInf"
  by (simp add: ToEuler_test_def huge_Quat_def times_ieee_def plus_ieee_def round_2p200[simplified])

text \<open>
  C4, the counterexample. The quaternion with x = y = 2^100 and z = w = 0 satisfies the
  inequality of the claim in exact arithmetic (2^200 > 0.499 * 2^201), and its components
  are \<^verbatim>\<open>float\<close> values. The function computes x*y and the squares in
  \<^verbatim>\<open>float\<close>, where they overflow: \<^verbatim>\<open>test\<close> and \<^verbatim>\<open>unit\<close> are both plus
  infinity, neither comparison holds, and the general branch returns pitch -0 and roll NaN.
\<close>

theorem ToEulerRadians_overflow:
  "representable (qx huge_Quat) \<and> representable (qy huge_Quat) \<and> pole_condition huge_Quat \<and>
   x3 (ToEulerRadians huge_Quat) = NZero \<and> z3 (ToEulerRadians huge_Quat) = NaN"
proof (intro conjI)
  show "representable (qx huge_Quat)" "representable (qy huge_Quat)"
    by (simp_all add: huge_Quat_def representable_def round_2p100[simplified])
  show "pole_condition huge_Quat"
    by (simp add: pole_condition_def huge_Quat_def Let_def)
  have l: "(lit 0.499 :: double) * PInf = PInf" "- (lit 0.499 :: double) * PInf = NInf"
    unfolding lit_0499 by (simp_all add: times_ieee_def uminus_ieee_def)
  have b1: "\<not> lit 0.499 * ToEuler_unit huge_Quat < ToEuler_test huge_Quat"
    unfolding unit_huge test_huge l by (simp add: less_ieee_def)
  have b2: "\<not> ToEuler_test huge_Quat < - lit 0.499 * ToEuler_unit huge_Quat"
    unfolding unit_huge test_huge l by (simp add: less_ieee_def)
  have e: "ToEulerRadians huge_Quat =
     (let x = qx huge_Quat; y = qy huge_Quat; z = qz huge_Quat; w = qw huge_Quat;
          sqw = (convert (w * w) :: double);
          sqx = (convert (x * x) :: double);
          sqy = (convert (y * y) :: double);
          sqz = (convert (z * z) :: double);
          unit = sqx + sqy + sqz + sqw
      in \<lparr>x3 = convert (asinf (convert (Fin (- 2) * (x * z - y * w)) / unit)),
            y3 = convert (atan2f (convert (Fin 2 * y * w + Fin 2 * x * z)) (sqw - sqx - sqy + sqz)),
            z3 = convert (atan2f (convert (Fin 2 * x * w + Fin 2 * y * z)) (sqw + sqx - sqy - sqz))\<rparr>)"
    using b1 b2 by (simp add: ToEulerRadians_def ToEuler_unit_def ToEuler_test_def Let_def)
  show "x3 (ToEulerRadians huge_Quat) = NZero"
    unfolding e
    by (simp add: huge_Quat_def Let_def times_ieee_def plus_ieee_def minus_ieee_def divide_ieee_def
        round_2p200[simplified])
  show "z3 (ToEulerRadians huge_Quat) = NaN"
    unfolding e
    by (simp add: huge_Quat_def Let_def times_ieee_def plus_ieee_def minus_ieee_def divide_ieee_def
        round_2p200[simplified] round_2p101[simplified] atan2f_def)
qed

lemma mul_PInf_not_finite: "\<not> is_finite (a * PInf)" "\<not> is_finite (a * NInf)" for a :: "'f::len ieee"
  by (cases a; simp add: times_ieee_def)+

text \<open>
  C7, as amended. Whenever the determinant that GetInverse computes is exactly 0, every
  entry of the result is non-finite (an infinity or NaN): there is no singularity check,
  the reciprocal of the determinant is an infinity, and every cofactor is multiplied by
  it. A duplicated row does not by itself make the computed determinant 0.
\<close>

theorem GetInverse_zero_det:
  assumes "feq (GetInverse_det m) (Fin 0)"
  shows "\<not> is_finite (Mat4_at (GetInverse m) r c)"
proof -
  from assms have "GetInverse_det m = Fin 0 \<or> GetInverse_det m = NZero"
    by (cases "GetInverse_det m") (simp_all add: feq_def)
  then have "1 / GetInverse_det m = PInf \<or> 1 / GetInverse_det m = NInf"
    by (auto simp: one_ieee_def divide_ieee_def)
  then show ?thesis
    unfolding GetInverse_def Let_def GetInverse_det_def[unfolded Let_def, symmetric]
    by (auto simp: Mat4_at_def Mat4_row_def Vec4_at_def mul_PInf_not_finite)
qed

lemma round_2p25 [simp]: "(round_ieee 33554432 :: float) = Fin 33554432"
proof -
  have "(round_ieee 33554432 :: float) = Fin (of_int 8388608 * 2 ^ 2)"
    by (rule round_float_large) simp_all
  then show ?thesis by simp
qed

lemma round_2p25m1 [simp]: "(round_ieee 33554431 :: float) = Fin 33554432"
proof -
  have "(round_ieee 33554431 :: float) = Fin (of_int 16777216 * 2 ^ 1)"
    by (rule round_float_large) (simp_all add: round_half_even_def Let_def)
  then show ?thesis by simp
qed

lemma det_B: "GetInverse_det singular_B = Fin (- 1)"
  by (simp add: GetInverse_det_def singular_B_def Mat4_of_rows_def Mat4_at_def Mat4_row_def Vec4_at_def
      Let_def times_ieee_def plus_ieee_def minus_ieee_def round_ieee_minus)

text \<open>
  C7, the counterexample. The matrix \<open>singular_B\<close> has two equal rows, yet the
  determinant GetInverse computes for it is -1 (the first cofactor is
  1 - 2^25 + 2^25 - 1 summed from the left, and 1 - 2^25 rounds to -2^25), and all 16
  entries of its result are finite.
\<close>

theorem GetInverse_duplicate_row_finite:
  "row1 singular_B = row2 singular_B \<and> GetInverse_det singular_B = Fin (- 1) \<and>
   GetInverse singular_B =
     \<lparr>row0 = \<lparr>x4 = Fin 1, y4 = NZero, z4 = NZero, w4 = NZero\<rparr>,
      row1 = \<lparr>x4 = NZero, y4 = Fin 1, z4 = Fin (- 1), w4 = NZero\<rparr>,
      row2 = \<lparr>x4 = NZero, y4 = Fin (- 33554432), z4 = Fin 33554432, w4 = NZero\<rparr>,
      row3 = \<lparr>x4 = NZero, y4 = Fin 33554432, z4 = Fin (- 33554432), w4 = NZero\<rparr>\<rparr>"
proof (intro conjI)
  show "row1 singular_B = row2 singular_B"
    by (simp add: singular_B_def Mat4_of_rows_def)
  show "GetInverse_det singular_B = Fin (- 1)"
    by (rule det_B)
  show "GetInverse singular_B =
     \<lparr>row0 = \<lparr>x4 = Fin 1, y4 = NZero, z4 = NZero, w4 = NZero\<rparr>,
      row1 = \<lparr>x4 = NZero, y4 = Fin 1, z4 = Fin (- 1), w4 = NZero\<rparr>,
      row2 = \<lparr>x4 = NZero, y4 = Fin (- 33554432), z4 = Fin 33554432, w4 = NZero\<rparr>,
      row3 = \<lparr>x4 = NZero, y4 = Fin 33554432, z4 = Fin (- 33554432), w4 = NZero\<rparr>\<rparr>"
    by (simp add: GetInverse_def singular_B_def Mat4_of_rows_def Mat4_at_def Mat4_row_def Vec4_at_def
      Let_def times_ieee_def plus_ieee_def minus_ieee_def divide_ieee_def one_ieee_def round_ieee_minus)
qed

theorem GetInverse_zero_det_witness:
  "feq (GetInverse_det singular_A) (Fin 0) \<and> \<not> is_finite (Mat4_at (GetInverse singular_A) 0 0)"
proof -
  have h: "feq (GetInverse_det singular_A) (Fin 0)"
    by (simp add: GetInverse_det_def singular_A_def Mat4_of_rows_def Mat4_at_def Mat4_row_def Vec4_at_def
      Let_def times_ieee_def plus_ieee_def minus_ieee_def round_ieee_minus feq_def)
  then show ?thesis using GetInverse_zero_det[OF h, of 0 0] by simp
qed

lemma round_half_even_near:
  assumes "\<bar>y - of_int m\<bar> < 1 / 2"
  shows "round_half_even y = m"
proof (cases "of_int m \<le> y")
  case True
  with assms have "\<lfloor>y\<rfloor> = m" by (intro floor_unique) auto
  with assms True show ?thesis by (auto simp: round_half_even_def Let_def)
next
  case False
  with assms have "\<lfloor>y\<rfloor> = m - 1" by (intro floor_unique) auto
  with assms False show ?thesis by (auto simp: round_half_even_def Let_def)
qed

lemma sqrtf_2: "(round_ieee (sqrt 2) :: float) = Fin (11863283 / 8388608)"
proof -
  have e: "sqrt 2 * 2 ^ 23 = sqrt 140737488355328"
  proof -
    have "sqrt 2 * 2 ^ 23 = sqrt 2 * sqrt ((2 ^ 23)\<^sup>2)" by simp
    also have "\<dots> = sqrt (2 * (2 ^ 23)\<^sup>2)" by (simp only: real_sqrt_mult)
    finally show ?thesis by simp
  qed
  have lo: "11863283 - 1 / 2 < sqrt 140737488355328"
    by (rule real_less_rsqrt) (simp add: power2_eq_square)
  have hi: "sqrt 140737488355328 < 11863283 + 1 / 2"
    by (rule real_less_lsqrt) (simp_all add: power2_eq_square)
  have r: "round_half_even (sqrt 2 * 2 ^ 23) = 11863283"
  proof -
    have "\<bar>sqrt 140737488355328 - of_int 11863283\<bar> < 1 / 2"
      using lo hi unfolding of_int_numeral by linarith
    then show ?thesis unfolding e by (rule round_half_even_near)
  qed
  have "(round_ieee (sqrt 2) :: float) = Fin (of_int 11863283 / 2 ^ 23)"
  proof (rule round_float_small)
    show "2 ^ 23 \<le> sqrt 2 * 2 ^ 23" unfolding e using lo by simp
    show "sqrt 2 * 2 ^ 23 < 2 ^ 24" unfolding e using hi by simp
    show "round_half_even (sqrt 2 * 2 ^ 23) = 11863283" by (rule r)
  qed simp
  then show ?thesis by simp
qed

lemma sqrtf_near_one: "(round_ieee (sqrt (8388607 / 8388608)) :: float) = Fin (16777215 / 16777216)"
proof -
  have e: "sqrt (8388607 / 8388608) * 2 ^ 24 = sqrt 281474943156224"
  proof -
    have "sqrt (8388607 / 8388608) * 2 ^ 24 = sqrt (8388607 / 8388608) * sqrt ((2 ^ 24)\<^sup>2)" by simp
    also have "\<dots> = sqrt (8388607 / 8388608 * (2 ^ 24)\<^sup>2)" by (simp only: real_sqrt_mult)
    finally show ?thesis by simp
  qed
  have lo: "16777215 - 1 / 2 < sqrt 281474943156224"
    by (rule real_less_rsqrt) (simp add: power2_eq_square)
  have hi: "sqrt 281474943156224 < 16777215 + 1 / 2"
    by (rule real_less_lsqrt) (simp_all add: power2_eq_square)
  have r: "round_half_even (sqrt (8388607 / 8388608) * 2 ^ 24) = 16777215"
  proof -
    have "\<bar>sqrt 281474943156224 - of_int 16777215\<bar> < 1 / 2"
      using lo hi unfolding of_int_numeral by linarith
    then show ?thesis unfolding e by (rule round_half_even_near)
  qed
  have "(round_ieee (sqrt (8388607 / 8388608)) :: float) = Fin (of_int 16777215 / 2 ^ 24)"
  proof (rule round_float_small)
    show "2 ^ 23 \<le> sqrt (8388607 / 8388608) * 2 ^ 24" unfolding e using lo by simp
    show "sqrt (8388607 / 8388608) * 2 ^ 24 < 2 ^ 24" unfolding e using hi by simp
    show "round_half_even (sqrt (8388607 / 8388608) * 2 ^ 24) = 16777215" by (rule r)
  qed simp
  then show ?thesis by simp
qed

lemma round_inv_sqrt2: "(round_ieee (8388608 / 11863283) :: float) = Fin (11863283 / 16777216)"
proof -
  have "(round_ieee (8388608 / 11863283) :: float) = Fin (of_int 11863283 / 2 ^ 24)"
    by (rule round_float_small) (simp_all add: round_half_even_def Let_def)
  then show ?thesis by simp
qed

lemma round_unit_component: "(round_ieee (11863283 / 16777216) :: float) = Fin (11863283 / 16777216)"
proof -
  have "(round_ieee (11863283 / 16777216) :: float) = Fin (of_int 11863283 / 2 ^ 24)"
    by (rule round_float_small) (simp_all add: round_half_even_def Let_def)
  then show ?thesis by simp
qed

lemma round_component_square:
  "(round_ieee (140737483538089 / 281474976710656) :: float) = Fin (16777215 / 33554432)"
proof -
  have "(round_ieee (140737483538089 / 281474976710656) :: float) = Fin (of_int 16777215 / 2 ^ 25)"
    by (rule round_float_small) (simp_all add: round_half_even_def Let_def)
  then show ?thesis by simp
qed

lemma round_self_dot: "(round_ieee (16777215 / 16777216) :: float) = Fin (16777215 / 16777216)"
proof -
  have "(round_ieee (16777215 / 16777216) :: float) = Fin (of_int 16777215 / 2 ^ 24)"
    by (rule round_float_small) (simp_all add: round_half_even_def Let_def)
  then show ?thesis by simp
qed

lemma round_self_dot_square:
  "(round_ieee (281474943156225 / 281474976710656) :: float) = Fin (8388607 / 8388608)"
proof -
  have "(round_ieee (281474943156225 / 281474976710656) :: float) = Fin (of_int 16777214 / 2 ^ 24)"
    by (rule round_float_small) (simp_all add: round_half_even_def Let_def)
  then show ?thesis by simp
qed

lemmas fp_ops = times_ieee_def plus_ieee_def minus_ieee_def divide_ieee_def uminus_ieee_def
  zero_ieee_def one_ieee_def less_ieee_def less_eq_ieee_def feq_def round_ieee_minus

lemmas unit_roundings = sqrtf_2 sqrtf_near_one round_inv_sqrt2 round_unit_component
  round_component_square round_self_dot round_self_dot_square

lemma Normalize_diag: "Normalize diag_v = unit_diag"
  by (simp add: Normalize_def diag_v_def unit_diag_def Let_def fp_ops unit_roundings)

lemma Normalize_neg_diag: "Normalize (Vec3_neg diag_v) = Vec3_neg unit_diag"
  by (simp add: Normalize_def Vec3_neg_def diag_v_def unit_diag_def Let_def fp_ops unit_roundings)

lemma Dot_unit_neg: "Dot unit_diag (Vec3_neg unit_diag) = Fin (- (16777215 / 16777216))"
  by (simp add: Dot_def Vec3_neg_def unit_diag_def fp_ops unit_roundings)

lemma Dot_unit_unit: "Dot unit_diag unit_diag = Fin (16777215 / 16777216)"
  by (simp add: Dot_def Vec3_neg_def unit_diag_def fp_ops unit_roundings)

lemma Dot_neg_neg: "Dot (Vec3_neg unit_diag) (Vec3_neg unit_diag) = Fin (16777215 / 16777216)"
  by (simp add: Dot_def Vec3_neg_def unit_diag_def fp_ops unit_roundings)

lemma Cross_unit_neg: "Cross unit_diag (Vec3_neg unit_diag) = \<lparr>x3 = Fin 0, y3 = Fin 0, z3 = Fin 0\<rparr>"
  by (simp add: Cross_def Vec3_neg_def unit_diag_def fp_ops unit_roundings)

lemma FromToRotation_diag: "FromToRotation diag_v (Vec3_neg diag_v) = Quat_default"
  by (simp add: FromToRotation_def Normalize_diag Normalize_neg_diag Dot_unit_neg Dot_unit_unit
      Dot_neg_neg Cross_unit_neg Let_def Vec4_of_Vec3_def Quat_of_Vec4_def GetNormalized_def
      fp_ops unit_roundings)

lemma lit_rad_to_deg: "(lit 57.2957795 :: float) = Fin (15019745 / 262144)"
proof -
  have "(round_ieee (572957795 / 10 ^ 7) :: float) = Fin (of_int 15019745 / 2 ^ 18)"
    by (rule round_float_small) (simp_all add: round_half_even_def Let_def)
  then show ?thesis by (simp add: lit_def)
qed

lemma Angle_identity: "Angle Quat_default Quat_default = Fin 0"
  unfolding Angle_def lit_rad_to_deg
  by (simp add: Quat_mul_def Quat_GetInverse_def GetSqrMagnitude_def Quat_default_def
      Quat_wxyz_def Let_def fp_ops)

lemma AngleRadians_identity: "AngleRadians Quat_default = Fin 0"
  by (simp add: AngleRadians_def Quat_default_def std_min_def std_max_def Let_def fp_ops)

text \<open>
  C9. The claim is that FromToRotation(v, -v) is a rotation by an angle strictly between
  179 and 181 degrees for every nonzero v. At v = (1, 1, 0) the two normalised vectors
  have the dot product -(1 - 2^-24), which is not \<open>\<le> -1\<close>, so the branch for
  antiparallel vectors is not taken; in the general branch the cross product is the zero
  vector and s = sqrt(s_from * s_to) + dot is 0, so the quaternion to normalise is zero
  and GetNormalized returns the identity. Its angle is 0, by Quat::Angle (degrees) and by
  Quat::AngleRadians alike.
\<close>


theorem FromToRotation_opposite_is_identity:
  "FromToRotation diag_v (Vec3_neg diag_v) = \<lparr>qx = Fin 0, qy = Fin 0, qz = Fin 0, qw = Fin 1\<rparr> \<and>
   Angle Quat_default (FromToRotation diag_v (Vec3_neg diag_v)) = Fin 0 \<and>
   AngleRadians (FromToRotation diag_v (Vec3_neg diag_v)) = Fin 0"
  by (simp add: FromToRotation_diag Angle_identity AngleRadians_identity)
    (simp add: Quat_default_def fp_ops)

subsection \<open>Slerp\<close>





lemma fneg_fneg [simp]: "fneg (fneg a) = a"
  by (cases a) auto

























subsection \<open>The perspective projection\<close>

lemma round_half_even_err: "\<bar>of_int (round_half_even y) - y\<bar> \<le> 1 / 2"
  unfolding round_half_even_def Let_def by (auto simp: abs_le_iff; linarith)

lemma round_float_err:
  fixes x :: real and n :: nat
  assumes "2 ^ 23 \<le> x * 2 ^ n" and "x * 2 ^ n < 2 ^ 24" and "n \<le> 149"
  shows "\<exists>r. (round_ieee x :: float) = Fin r \<and> \<bar>r - x\<bar> \<le> 1 / 2 ^ (n + 1)"
proof -
  define m where "m = round_half_even (x * 2 ^ n)"
  have r: "(round_ieee x :: float) = Fin (of_int m / 2 ^ n)"
    by (rule round_float_small[OF assms]) (simp add: m_def)
  have "\<bar>of_int m - x * 2 ^ n\<bar> \<le> 1 / 2"
    unfolding m_def by (rule round_half_even_err)
  then have "\<bar>of_int m - x * 2 ^ n\<bar> / 2 ^ n \<le> (1 / 2) / 2 ^ n"
    by (intro divide_right_mono) simp_all
  moreover have "\<bar>of_int m - x * 2 ^ n\<bar> / 2 ^ n = \<bar>of_int m / 2 ^ n - x\<bar>"
  proof -
    have "of_int m / 2 ^ n - x = (of_int m - x * 2 ^ n) / 2 ^ n" by (simp add: field_simps)
    then show ?thesis by (simp add: abs_divide)
  qed
  ultimately have "\<bar>of_int m / 2 ^ n - x\<bar> \<le> 1 / 2 ^ (n + 1)" by simp
  with r show ?thesis by blast
qed

lemma PI_value: "PI = Fin (13176795 / 2 ^ 22)"
proof -
  have "(round_ieee (314159265358979323846 / 10 ^ 20) :: float) = Fin (of_int 13176795 / 2 ^ 22)"
    by (rule round_float_small) (simp_all add: round_half_even_def Let_def)
  then show ?thesis by (simp add: PI_def lit_def)
qed

lemma DEG_TO_RAD_value: "DEG_TO_RAD = Fin (9370165 / 2 ^ 29)"
proof -
  have "(round_ieee (13176795 / 2 ^ 22 / 180) :: float) = Fin (of_int 9370165 / 2 ^ 29)"
    by (rule round_float_small) (simp_all add: round_half_even_def Let_def)
  then show ?thesis by (simp add: DEG_TO_RAD_def PI_value divide_ieee_def)
qed

lemma ToRadians_30: "ToRadians (Fin 30) = Fin (8784530 / 2 ^ 24)"
proof -
  have "(round_ieee (30 * (9370165 / 2 ^ 29)) :: float) = Fin (of_int 8784530 / 2 ^ 24)"
    by (rule round_float_small) (simp_all add: round_half_even_def Let_def)
  then show ?thesis by (simp add: ToRadians_def DEG_TO_RAD_value times_ieee_def)
qed

lemma aspect_value: "(Fin 16 / Fin 9 :: float) = Fin (14913081 / 2 ^ 23)"
proof -
  have "(round_ieee (16 / 9) :: float) = Fin (of_int 14913081 / 2 ^ 23)"
    by (rule round_float_small) (simp_all add: round_half_even_def Let_def)
  then show ?thesis by (simp add: divide_ieee_def)
qed

lemma half_fov: "(Fin 60 / Fin 2 :: float) = Fin 30"
  by (simp add: divide_ieee_def)


lemma Maclaurin_cos_bound: "\<bar>cos x - (\<Sum>m<n. cos_coeff m * x ^ m)\<bar> \<le> inverse (fact n) * \<bar>x\<bar> ^ n"
proof -
  obtain t where "cos x = (\<Sum>m<n. cos_coeff m * x ^ m) + (cos (t + 1 / 2 * real n * pi) / fact n) * x ^ n"
    using Maclaurin_cos_expansion[of x n] by blast
  then have "cos x - (\<Sum>m<n. cos_coeff m * x ^ m) = cos (t + 1 / 2 * real n * pi) * (inverse (fact n) * x ^ n)"
    by (simp add: field_simps)
  then have "\<bar>cos x - (\<Sum>m<n. cos_coeff m * x ^ m)\<bar> = \<bar>cos (t + 1 / 2 * real n * pi)\<bar> * (inverse (fact n) * \<bar>x\<bar> ^ n)"
    by (simp add: abs_mult power_abs)
  also have "\<dots> \<le> 1 * (inverse (fact n) * \<bar>x\<bar> ^ n)"
    by (intro mult_right_mono) simp_all
  finally show ?thesis by simp
qed

lemma sum_lessThan_10:
  fixes f :: "nat \<Rightarrow> real"
  shows "(\<Sum>m<10. f m) = f 0 + f 1 + f 2 + f 3 + f 4 + f 5 + f 6 + f 7 + f 8 + f 9"
  by (simp add: eval_nat_numeral)

lemma sin_rad30: "5000000121 / 10 ^ 10 < sin (8784530 / 2 ^ 24 :: real) \<and> sin (8784530 / 2 ^ 24 :: real) < 5000000131 / 10 ^ 10"
proof -
  let ?x = "8784530 / 2 ^ 24 :: real"
  have b: "\<bar>sin ?x - (\<Sum>m<10. sin_coeff m * ?x ^ m)\<bar> \<le> inverse (fact 10) * \<bar>?x\<bar> ^ 10"
    by (rule Maclaurin_sin_bound)
  have lo: "5000000121 / 10 ^ 10 < (\<Sum>m<10. sin_coeff m * ?x ^ m) - inverse (fact 10) * \<bar>?x\<bar> ^ 10"
    unfolding sum_lessThan_10 by (simp add: sin_coeff_def fact_numeral power_divide)
  have hi: "(\<Sum>m<10. sin_coeff m * ?x ^ m) + inverse (fact 10) * \<bar>?x\<bar> ^ 10 < 5000000131 / 10 ^ 10"
    unfolding sum_lessThan_10 by (simp add: sin_coeff_def fact_numeral power_divide)
  show ?thesis using b lo hi by linarith
qed

lemma cos_rad30: "8660253960 / 10 ^ 10 < cos (8784530 / 2 ^ 24 :: real) \<and> cos (8784530 / 2 ^ 24 :: real) < 8660253975 / 10 ^ 10"
proof -
  let ?x = "8784530 / 2 ^ 24 :: real"
  have b: "\<bar>cos ?x - (\<Sum>m<10. cos_coeff m * ?x ^ m)\<bar> \<le> inverse (fact 10) * \<bar>?x\<bar> ^ 10"
    by (rule Maclaurin_cos_bound)
  have lo: "8660253960 / 10 ^ 10 < (\<Sum>m<10. cos_coeff m * ?x ^ m) - inverse (fact 10) * \<bar>?x\<bar> ^ 10"
    unfolding sum_lessThan_10 by (simp add: cos_coeff_def fact_numeral power_divide)
  have hi: "(\<Sum>m<10. cos_coeff m * ?x ^ m) + inverse (fact 10) * \<bar>?x\<bar> ^ 10 < 8660253975 / 10 ^ 10"
    unfolding sum_lessThan_10 by (simp add: cos_coeff_def fact_numeral power_divide)
  show ?thesis using b lo hi by linarith
qed


lemma tan_rad30:
  "57735028 / 100000000 < tan (8784530 / 2 ^ 24 :: real) \<and>
   tan (8784530 / 2 ^ 24 :: real) < 57735029 / 100000000"
proof -
  let ?x = "8784530 / 2 ^ 24 :: real"
  have s: "5000000121 / 10 ^ 10 < sin ?x" "sin ?x < 5000000131 / 10 ^ 10"
    using sin_rad30 by blast+
  have c: "8660253960 / 10 ^ 10 < cos ?x" "cos ?x < 8660253975 / 10 ^ 10"
    using cos_rad30 by blast+
  have cpos: "0 < cos ?x" using c(1) by simp
  have "57735028 / 100000000 * cos ?x < sin ?x" using s(1) c(2) by simp
  then have lo: "57735028 / 100000000 < sin ?x / cos ?x"
    using cpos by (simp add: pos_less_divide_eq)
  have "sin ?x < 57735029 / 100000000 * cos ?x" using s(2) c(1) by simp
  then have hi: "sin ?x / cos ?x < 57735029 / 100000000"
    using cpos by (simp add: pos_divide_less_eq)
  show ?thesis using lo hi by (simp add: tan_def)
qed

lemma tanf_rad30:
  "\<exists>t. (tanf (Fin (8784530 / 2 ^ 24)) :: float) = Fin t \<and>
       57735025 / 100000000 < t \<and> t < 57735032 / 100000000"
proof -
  let ?x = "8784530 / 2 ^ 24 :: real"
  have b: "57735028 / 100000000 < tan ?x" "tan ?x < 57735029 / 100000000"
    using tan_rad30 by blast+
  have "\<exists>r. (round_ieee (tan ?x) :: float) = Fin r \<and> \<bar>r - tan ?x\<bar> \<le> 1 / 2 ^ (24 + 1)"
    by (rule round_float_err) (use b in simp_all)
  then obtain r where r: "(round_ieee (tan ?x) :: float) = Fin r" "\<bar>r - tan ?x\<bar> \<le> 1 / 2 ^ (24 + 1)"
    by blast
  from r(2) have e: "\<bar>r - tan ?x\<bar> \<le> 1 / 33554432" by simp
  have "57735025 / 100000000 < r \<and> r < 57735032 / 100000000"
    using e b by linarith
  with r(1) show ?thesis by simp
qed

lemma sqrt3_bounds: "17320508 / 10000000 < sqrt 3" "sqrt 3 < 17320509 / 10000000"
proof -
  show "17320508 / 10000000 < sqrt 3"
    by (rule real_less_rsqrt) (simp add: power2_eq_square)
  show "sqrt 3 < 17320509 / 10000000"
    by (rule real_less_lsqrt) (simp_all add: power2_eq_square)
qed

lemma neg_inv_tan:
  fixes t :: real
  assumes "57735025 / 100000000 < t" and "t < 57735032 / 100000000"
  shows "\<exists>b. (Fin (- 1) / Fin t :: float) = Fin b \<and> \<bar>b - (- 1 / tan (pi / 6))\<bar> < 1 / 10 ^ 6 \<and> b < 0"
proof -
  have tpos: "0 < t" using assms(1) by simp
  have "17320506 / 10000000 * t < 1" using assms(2) by simp
  then have lo: "17320506 / 10000000 < 1 / t" using tpos by (simp add: pos_less_divide_eq)
  have "1 < 17320509 / 10000000 * t" using assms(1) by simp
  then have hi: "1 / t < 17320509 / 10000000" using tpos by (simp add: pos_divide_less_eq)
  have "\<exists>r. (round_ieee (1 / t) :: float) = Fin r \<and> \<bar>r - 1 / t\<bar> \<le> 1 / 2 ^ (23 + 1)"
    by (rule round_float_err) (use lo hi in simp_all)
  then obtain r where r: "(round_ieee (1 / t) :: float) = Fin r" "\<bar>r - 1 / t\<bar> \<le> 1 / 2 ^ (23 + 1)"
    by blast
  from r(2) have e: "\<bar>r - 1 / t\<bar> \<le> 1 / 16777216" by simp
  have rb: "17320505 / 10000000 < r" "r < 17320510 / 10000000"
    using e lo hi by linarith+
  have "(round_ieee (- (1 / t)) :: float) = fneg (round_ieee (1 / t))"
    by (rule round_ieee_minus) (use tpos in simp)
  then have v: "(Fin (- 1) / Fin t :: float) = Fin (- r)"
    using tpos rb(1) by (simp add: divide_ieee_def r(1))
  have T: "- 1 / tan (pi / 6) = - sqrt 3" by (simp add: tan_30)
  have "\<bar>- r - (- sqrt 3)\<bar> < 1 / 1000000"
    using rb sqrt3_bounds by linarith
  then have fin: "\<bar>- r - (- sqrt 3)\<bar> < 1 / 10 ^ 6" by simp
  have "\<bar>- r - (- 1 / tan (pi / 6))\<bar> < 1 / 10 ^ 6"
    unfolding T by (rule fin)
  moreover have "- r < 0" using rb(1) by linarith
  ultimately show ?thesis using v by blast
qed

lemma inv_aspect_tan:
  fixes t :: real
  assumes "57735025 / 100000000 < t" and "t < 57735032 / 100000000"
  shows "\<exists>a. (Fin 1 / (Fin (14913081 / 2 ^ 23) * Fin t) :: float) = Fin a \<and>
             \<bar>a - 1 / (16 / 9 * tan (pi / 6))\<bar> < 1 / 10 ^ 6"
proof -
  let ?A = "14913081 / 2 ^ 23 :: real"
  have tpos: "0 < t" using assms(1) by simp
  have lo: "10264004 / 10000000 < ?A * t" using assms(1) by simp
  have hi: "?A * t < 10264006 / 10000000" using assms(2) by simp
  have "\<exists>r. (round_ieee (?A * t) :: float) = Fin r \<and> \<bar>r - ?A * t\<bar> \<le> 1 / 2 ^ (23 + 1)"
    by (rule round_float_err) (use lo hi in simp_all)
  then obtain p where p: "(round_ieee (?A * t) :: float) = Fin p" "\<bar>p - ?A * t\<bar> \<le> 1 / 2 ^ (23 + 1)"
    by blast
  from p(2) have e: "\<bar>p - ?A * t\<bar> \<le> 1 / 16777216" by simp
  have pb: "10264003 / 10000000 < p" "p < 10264007 / 10000000"
    using e lo hi by linarith+
  have ppos: "0 < p" using pb(1) by linarith
  have m: "(Fin ?A * Fin t :: float) = Fin p"
    using tpos p(1) by (simp add: times_ieee_def)
  have "97427836 / 100000000 * p < 1" using pb(2) by simp
  then have ilo: "97427836 / 100000000 < 1 / p" using ppos by (simp add: pos_less_divide_eq)
  have "1 < 97427875 / 100000000 * p" using pb(1) by simp
  then have ihi: "1 / p < 97427875 / 100000000" using ppos by (simp add: pos_divide_less_eq)
  have "\<exists>r. (round_ieee (1 / p) :: float) = Fin r \<and> \<bar>r - 1 / p\<bar> \<le> 1 / 2 ^ (24 + 1)"
    by (rule round_float_err) (use ilo ihi in simp_all)
  then obtain a where a: "(round_ieee (1 / p) :: float) = Fin a" "\<bar>a - 1 / p\<bar> \<le> 1 / 2 ^ (24 + 1)"
    by blast
  from a(2) have e': "\<bar>a - 1 / p\<bar> \<le> 1 / 33554432" by simp
  have ab: "97427832 / 100000000 < a" "a < 97427879 / 100000000"
    using e' ilo ihi by linarith+
  have v: "(Fin 1 / (Fin ?A * Fin t) :: float) = Fin a"
    unfolding m using ppos by (simp add: divide_ieee_def a(1))
  have T: "1 / (16 / 9 * tan (pi / 6)) = 9 * sqrt 3 / 16" by (simp add: tan_30)
  have "\<bar>a - 9 * sqrt 3 / 16\<bar> < 1 / 1000000"
    using ab sqrt3_bounds by linarith
  then have fin: "\<bar>a - 9 * sqrt 3 / 16\<bar> < 1 / 10 ^ 6" by simp
  have "\<bar>a - 1 / (16 / 9 * tan (pi / 6))\<bar> < 1 / 10 ^ 6"
    unfolding T by (rule fin)
  with v show ?thesis by blast
qed


lemma PerspectiveProjection_entries:
  "Mat4_at (PerspectiveProjection (Fin 16 / Fin 9) (Fin 60) n f) 0 0 =
     Fin 1 / ((Fin 16 / Fin 9) * tanf (Fin (8784530 / 2 ^ 24)))"
  "Mat4_at (PerspectiveProjection (Fin 16 / Fin 9) (Fin 60) n f) 1 1 =
     Fin (- 1) / tanf (Fin (8784530 / 2 ^ 24))"
  "Mat4_row (PerspectiveProjection (Fin 16 / Fin 9) (Fin 60) n f) 3 =
     \<lparr>x4 = Fin 0, y4 = Fin 0, z4 = Fin 1, w4 = Fin 0\<rparr>"
  by (simp_all add: PerspectiveProjection_def Mat4_of_rows_def Mat4_at_def Mat4_row_def Vec4_at_def
      Let_def half_fov ToRadians_30 zero_ieee_def one_ieee_def uminus_ieee_def)

text \<open>
  C8. In PerspectiveProjection(16/9, 60, 0.1, 1000) the half angle of 30 degrees becomes
  the \<^verbatim>\<open>float\<close> 8784530 / 2^24 radians; P[0][0] is the \<^verbatim>\<open>float\<close> quotient
  1 / ((16/9) * t) and P[1][1] is -1 / t, for t the \<^verbatim>\<open>float\<close> tangent of that angle.
  P[0][0] lies within 10^-6 of 1 / ((16/9) * tan(30 degrees)), P[1][1] lies within 10^-6 of
  -1 / tan(30 degrees) and is negative, P[3][2] = 1 and P[3][3] = 0; the bottom row is
  (0, 0, 1, 0).
\<close>

theorem PerspectiveProjection_structure:
  "(let P = PerspectiveProjection (Fin 16 / Fin 9) (Fin 60) (lit 0.1) (Fin 1000)
    in Mat4_at P 0 0 = Fin 1 / ((Fin 16 / Fin 9) * tanf (Fin (8784530 / 2 ^ 24))) \<and>
       Mat4_at P 1 1 = Fin (- 1) / tanf (Fin (8784530 / 2 ^ 24)) \<and>
       (\<exists>a b. Mat4_at P 0 0 = Fin a \<and> \<bar>a - 1 / (16 / 9 * tan (pi / 6))\<bar> < 1 / 10 ^ 6 \<and>
              Mat4_at P 1 1 = Fin b \<and> \<bar>b - (- 1 / tan (pi / 6))\<bar> < 1 / 10 ^ 6 \<and> b < 0) \<and>
       Mat4_at P 3 2 = Fin 1 \<and> Mat4_at P 3 3 = Fin 0 \<and>
       Mat4_row P 3 = \<lparr>x4 = Fin 0, y4 = Fin 0, z4 = Fin 1, w4 = Fin 0\<rparr>)"
proof -
  let ?P = "PerspectiveProjection (Fin 16 / Fin 9) (Fin 60) (lit 0.1) (Fin 1000)"
  obtain t where t: "(tanf (Fin (8784530 / 2 ^ 24)) :: float) = Fin t"
      "57735025 / 100000000 < t" "t < 57735032 / 100000000"
    using tanf_rad30 by blast
  obtain a where a: "(Fin 1 / (Fin (14913081 / 2 ^ 23) * Fin t) :: float) = Fin a"
      "\<bar>a - 1 / (16 / 9 * tan (pi / 6))\<bar> < 1 / 10 ^ 6"
    using inv_aspect_tan[OF t(2,3)] by blast
  obtain b where b: "(Fin (- 1) / Fin t :: float) = Fin b"
      "\<bar>b - (- 1 / tan (pi / 6))\<bar> < 1 / 10 ^ 6" "b < 0"
    using neg_inv_tan[OF t(2,3)] by blast
  have "Mat4_at ?P 0 0 = Fin 1 / ((Fin 16 / Fin 9) * tanf (Fin (8784530 / 2 ^ 24)))"
    by (rule PerspectiveProjection_entries(1))
  also have "\<dots> = Fin a"
    unfolding t(1) aspect_value by (rule a(1))
  finally have e00: "Mat4_at ?P 0 0 = Fin a" .
  have "Mat4_at ?P 1 1 = Fin (- 1) / tanf (Fin (8784530 / 2 ^ 24))"
    by (rule PerspectiveProjection_entries(2))
  also have "\<dots> = Fin b"
    unfolding t(1) by (rule b(1))
  finally have e11: "Mat4_at ?P 1 1 = Fin b" .
  have ex: "\<exists>a b. Mat4_at ?P 0 0 = Fin a \<and> \<bar>a - 1 / (16 / 9 * tan (pi / 6))\<bar> < 1 / 10 ^ 6 \<and>
              Mat4_at ?P 1 1 = Fin b \<and> \<bar>b - (- 1 / tan (pi / 6))\<bar> < 1 / 10 ^ 6 \<and> b < 0"
    using e00 e11 a(2) b(2,3) by blast
  have r3: "Mat4_row ?P 3 = \<lparr>x4 = Fin 0, y4 = Fin 0, z4 = Fin 1, w4 = Fin 0\<rparr>"
    by (rule PerspectiveProjection_entries(3))
  have c: "Mat4_at ?P 3 2 = Fin 1" "Mat4_at ?P 3 3 = Fin 0"
    by (simp_all add: Mat4_at_def r3 Vec4_at_def)
  show ?thesis
    unfolding Let_def
    using PerspectiveProjection_entries(1,2)[of "lit 0.1" "Fin 1000"] ex r3 c by blast
qed

subsection \<open>Decompose on an intact matrix\<close>

text \<open>
  Beside C1: the rest of Decompose, run on an intact matrix, still rejects a translation.
  \<^verbatim>\<open>Translate(1, 2, 3)\<close> holds the translation in column 3 (cell [0][3] is 1) and has
  the bottom row (0, 0, 0, 1); the function tests the cells [0][3], [1][3] and [2][3] for
  being 0 and returns false.
\<close>

lemma Decompose_local_rejects_translation:
  "Mat4_at (Translate t123) 0 3 = Fin 1 \<and>
   Mat4_row (Translate t123) 3 = \<lparr>x4 = Fin 0, y4 = Fin 0, z4 = Fin 0, w4 = Fin 1\<rparr> \<and>
   Decompose_local (Translate t123) = None"
  by (simp add: Decompose_local_def Translate_def Mat4_of_rows_def t123_def epsilonEqual_def
      epsilon_def Mat4_at_def Mat4_row_def Vec4_at_def abs_ieee_def fp_ops)

end
